theory Spec2Isabelle
  imports Complex_Main "HOL-Library.AList"
begin

section \<open>Python values, strings and dictionaries\<close>

text \<open>
  The program is \<^verbatim>\<open>stremio_to_trakt.py\<close>: an \<^verbatim>\<open>HTMLParser\<close> subclass that collects
  media items from a Stremio library export, and a transformer that turns the items
  into Trakt import entries.

  What the model takes from outside the program are parameters of its functions: the
  tokens \<^verbatim>\<open>HTMLParser.feed\<close> delivers for a document, \<^verbatim>\<open>urllib.parse.unquote\<close>, and the
  readings of \<^verbatim>\<open>datetime.now().isoformat()\<close>.

  Python strings are modelled as \<^typ>\<open>string\<close>; a \<^typ>\<open>char\<close> is read as the code point
  0..255 of one character, so the character classes below are Python's classes on
  that range. A Python float is modelled by the real number its decimal literal
  denotes: rounding to a double and overflow to infinity are not modelled. An
  exception is a value of \<^verbatim>\<open>py_error\<close>; a function that may raise returns a sum.
\<close>

datatype py_error = TypeError | ValueError | AttributeError | KeyError

datatype pyval = PNone | PBool bool | PInt int | PFloat real | PStr string

text \<open>A dict with string keys, in insertion order; keys are kept distinct by
  \<^const>\<open>AList.update\<close>, which overwrites in place and appends new keys, as Python does.\<close>

type_synonym pydict = "(string \<times> pyval) list"

text \<open>\<^verbatim>\<open>dict(attrs)\<close>: a later duplicate attribute overwrites the earlier value. An
  attribute without a value (\<^verbatim>\<open><a class>\<close>) carries \<^verbatim>\<open>None\<close>.\<close>

type_synonym attrs_dict = "(string \<times> string option) list"

definition dict_of :: "(string \<times> 'v) list \<Rightarrow> (string \<times> 'v) list" where
  "dict_of kvs = foldl (\<lambda>d (k, v). AList.update k v d) [] kvs"

definition has_key :: "(string \<times> 'v) list \<Rightarrow> string \<Rightarrow> bool" where
  "has_key d k = (map_of d k \<noteq> None)"

text \<open>\<^verbatim>\<open>attrs_dict.get(k, '')\<close>\<close>

definition attr_get :: "attrs_dict \<Rightarrow> string \<Rightarrow> string option" where
  "attr_get ad k = (case map_of ad k of None \<Rightarrow> Some [] | Some v \<Rightarrow> v)"

text \<open>\<^verbatim>\<open>item.get(k)\<close> and \<^verbatim>\<open>item.get(k, default)\<close>\<close>

definition dget :: "pydict \<Rightarrow> string \<Rightarrow> pyval" where
  "dget d k = (case map_of d k of None \<Rightarrow> PNone | Some v \<Rightarrow> v)"

definition dget_default :: "pydict \<Rightarrow> string \<Rightarrow> pyval \<Rightarrow> pyval" where
  "dget_default d k dflt = (case map_of d k of None \<Rightarrow> dflt | Some v \<Rightarrow> v)"

text \<open>\<^verbatim>\<open>item[k]\<close> raises \<^verbatim>\<open>KeyError\<close> on a missing key.\<close>

definition dindex :: "pydict \<Rightarrow> string \<Rightarrow> py_error + pyval" where
  "dindex d k = (case map_of d k of None \<Rightarrow> Inl KeyError | Some v \<Rightarrow> Inr v)"

fun truthy :: "pyval \<Rightarrow> bool" where
  "truthy PNone = False"
| "truthy (PBool b) = b"
| "truthy (PInt i) = (i \<noteq> 0)"
| "truthy (PFloat r) = (r \<noteq> 0)"
| "truthy (PStr s) = (s \<noteq> [])"

text \<open>\<^verbatim>\<open>v > c\<close> and \<^verbatim>\<open>v >= c\<close> for a number \<open>c\<close>: a \<^verbatim>\<open>TypeError\<close> when \<open>v\<close> is a
  string or \<^verbatim>\<open>None\<close>; a bool counts as 0 or 1.\<close>

fun num_of :: "pyval \<Rightarrow> real option" where
  "num_of (PBool b) = Some (if b then 1 else 0)"
| "num_of (PInt i) = Some (real_of_int i)"
| "num_of (PFloat r) = Some r"
| "num_of PNone = None"
| "num_of (PStr s) = None"

definition py_gt :: "pyval \<Rightarrow> real \<Rightarrow> py_error + bool" where
  "py_gt v c = (case num_of v of None \<Rightarrow> Inl TypeError | Some x \<Rightarrow> Inr (x > c))"

definition py_ge :: "pyval \<Rightarrow> real \<Rightarrow> py_error + bool" where
  "py_ge v c = (case num_of v of None \<Rightarrow> Inl TypeError | Some x \<Rightarrow> Inr (x \<ge> c))"

subsection \<open>Character classes and string methods\<close>

definition cp :: "char \<Rightarrow> nat" where
  "cp c = of_char c"

text \<open>\<^verbatim>\<open>\d\<close>\<close>

definition is_digit :: "char \<Rightarrow> bool" where
  "is_digit c = (48 \<le> cp c \<and> cp c \<le> 57)"

text \<open>\<^verbatim>\<open>\s\<close>, and the characters \<^verbatim>\<open>str.strip()\<close> removes\<close>

definition is_space :: "char \<Rightarrow> bool" where
  "is_space c = (let n = cp c in
     (9 \<le> n \<and> n \<le> 13) \<or> (28 \<le> n \<and> n \<le> 32) \<or> n = 133 \<or> n = 160)"

text \<open>\<^verbatim>\<open>\w\<close>: alphanumeric characters and the underscore\<close>

definition is_word :: "char \<Rightarrow> bool" where
  "is_word c = (let n = cp c in
     (48 \<le> n \<and> n \<le> 57) \<or> (65 \<le> n \<and> n \<le> 90) \<or> n = 95 \<or> (97 \<le> n \<and> n \<le> 122) \<or>
     n = 170 \<or> n = 178 \<or> n = 179 \<or> n = 181 \<or> n = 185 \<or> n = 186 \<or>
     (188 \<le> n \<and> n \<le> 190) \<or> (192 \<le> n \<and> n \<le> 214) \<or> (216 \<le> n \<and> n \<le> 246) \<or>
     248 \<le> n)"

definition upper_chars :: string where
  "upper_chars = ''ABCDEFGHIJKLMNOPQRSTUVWXYZ'' @
     [CHR 0xC0, CHR 0xC1, CHR 0xC2, CHR 0xC3, CHR 0xC4, CHR 0xC5, CHR 0xC6, CHR 0xC7,
      CHR 0xC8, CHR 0xC9, CHR 0xCA, CHR 0xCB, CHR 0xCC, CHR 0xCD, CHR 0xCE, CHR 0xCF,
      CHR 0xD0, CHR 0xD1, CHR 0xD2, CHR 0xD3, CHR 0xD4, CHR 0xD5, CHR 0xD6,
      CHR 0xD8, CHR 0xD9, CHR 0xDA, CHR 0xDB, CHR 0xDC, CHR 0xDD, CHR 0xDE]"

definition lower_chars :: string where
  "lower_chars = ''abcdefghijklmnopqrstuvwxyz'' @
     [CHR 0xE0, CHR 0xE1, CHR 0xE2, CHR 0xE3, CHR 0xE4, CHR 0xE5, CHR 0xE6, CHR 0xE7,
      CHR 0xE8, CHR 0xE9, CHR 0xEA, CHR 0xEB, CHR 0xEC, CHR 0xED, CHR 0xEE, CHR 0xEF,
      CHR 0xF0, CHR 0xF1, CHR 0xF2, CHR 0xF3, CHR 0xF4, CHR 0xF5, CHR 0xF6,
      CHR 0xF8, CHR 0xF9, CHR 0xFA, CHR 0xFB, CHR 0xFC, CHR 0xFD, CHR 0xFE]"

definition lower_char :: "char \<Rightarrow> char" where
  "lower_char c = (case map_of (zip upper_chars lower_chars) c of None \<Rightarrow> c | Some l \<Rightarrow> l)"

text \<open>\<^verbatim>\<open>s.lower()\<close>\<close>

definition lower :: "string \<Rightarrow> string" where
  "lower s = map lower_char s"

text \<open>\<^verbatim>\<open>s.startswith(p)\<close>\<close>

fun startswith :: "string \<Rightarrow> string \<Rightarrow> bool" where
  "startswith s [] = True"
| "startswith [] (p # ps) = False"
| "startswith (c # cs) (p # ps) = (c = p \<and> startswith cs ps)"

text \<open>\<^verbatim>\<open>sub in s\<close>\<close>

fun contains :: "string \<Rightarrow> string \<Rightarrow> bool" where
  "contains sub [] = (sub = [])"
| "contains sub (c # cs) = (startswith (c # cs) sub \<or> contains sub cs)"

text \<open>\<^verbatim>\<open>s.strip()\<close>\<close>

definition strip :: "string \<Rightarrow> string" where
  "strip s = rev (dropWhile is_space (rev (dropWhile is_space s)))"

text \<open>\<^verbatim>\<open>sub in x\<close> and \<^verbatim>\<open>x.lower()\<close> where \<open>x\<close> may be \<^verbatim>\<open>None\<close>\<close>

definition py_in :: "string \<Rightarrow> string option \<Rightarrow> py_error + bool" where
  "py_in sub x = (case x of None \<Rightarrow> Inl TypeError | Some s \<Rightarrow> Inr (contains sub s))"

definition py_lower :: "string option \<Rightarrow> py_error + string" where
  "py_lower x = (case x of None \<Rightarrow> Inl AttributeError | Some s \<Rightarrow> Inr (lower s))"

subsection \<open>Numbers from digit strings\<close>

definition nat_of_digits :: "string \<Rightarrow> nat" where
  "nat_of_digits ds = foldl (\<lambda>a c. 10 * a + (cp c - 48)) 0 ds"

text \<open>\<^verbatim>\<open>int(s)\<close>, applied only to a group matched by \<^verbatim>\<open>\d+\<close>. CPython refuses a
  digit string longer than \<^verbatim>\<open>sys.int_max_str_digits\<close> (4300) with a \<^verbatim>\<open>ValueError\<close>.\<close>

definition py_int :: "string \<Rightarrow> py_error + int" where
  "py_int s = (if s = [] \<or> \<not> list_all is_digit s \<or> length s > 4300 then Inl ValueError
     else Inr (int (nat_of_digits s)))"

text \<open>\<^verbatim>\<open>float(s)\<close>, applied only to a group matched by \<^verbatim>\<open>[\d.]+\<close>: a \<^verbatim>\<open>ValueError\<close>
  unless the string has at least one digit and at most one dot.\<close>

definition py_float :: "string \<Rightarrow> py_error + real" where
  "py_float s =
     (let ip = takeWhile is_digit s; r = dropWhile is_digit s in
      if r = [] then (if ip = [] then Inl ValueError else Inr (real (nat_of_digits ip)))
      else if hd r = CHR ''.'' \<and> list_all is_digit (tl r) \<and> (ip \<noteq> [] \<or> tl r \<noteq> [])
      then Inr (real (nat_of_digits (ip @ tl r)) / 10 ^ length (tl r))
      else Inl ValueError)"

subsection \<open>The regular expressions\<close>

text \<open>\<^verbatim>\<open>re.search(p, s)\<close>: the match at the leftmost position where \<open>p\<close> matches. Each
  pattern of the program is written as a function from the text at a position to its
  groups; every quantifier in them is followed by a character outside its class (or by
  the end of the pattern), so the greedy match is the only one.\<close>

fun search :: "(string \<Rightarrow> 'a option) \<Rightarrow> string \<Rightarrow> 'a option" where
  "search m [] = m []"
| "search m (c # cs) = (case m (c # cs) of Some g \<Rightarrow> Some g | None \<Rightarrow> search m cs)"

definition strip_prefix :: "string \<Rightarrow> string \<Rightarrow> string option" where
  "strip_prefix p s = (if startswith s p then Some (drop (length p) s) else None)"

text \<open>A non-empty greedy run of a character class: the run and the rest.\<close>

definition run1 :: "(char \<Rightarrow> bool) \<Rightarrow> string \<Rightarrow> (string \<times> string) option" where
  "run1 cls s = (if takeWhile cls s = [] then None else Some (takeWhile cls s, dropWhile cls s))"

text \<open>\<^verbatim>\<open>#/detail/(movie|series)/(tt\d+)\<close>\<close>

definition imdb_at :: "string \<Rightarrow> (string \<times> string) option" where
  "imdb_at s =
     (case strip_prefix ''#/detail/'' s of None \<Rightarrow> None
      | Some r \<Rightarrow>
        (case (case strip_prefix ''movie'' r of Some r' \<Rightarrow> Some (''movie'', r')
               | None \<Rightarrow> (case strip_prefix ''series'' r of Some r' \<Rightarrow> Some (''series'', r')
                          | None \<Rightarrow> None)) of
           None \<Rightarrow> None
         | Some (media_type, r') \<Rightarrow>
           (case strip_prefix ''/tt'' r' of None \<Rightarrow> None
            | Some r'' \<Rightarrow>
              (case run1 is_digit r'' of None \<Rightarrow> None
               | Some (ds, _) \<Rightarrow> Some (media_type, ''tt'' @ ds)))))"

text \<open>\<^verbatim>\<open>(tt\d+):(\d+):(\d+)\<close>: groups 2 and 3\<close>

definition episode_at :: "string \<Rightarrow> (string \<times> string) option" where
  "episode_at s =
     (case strip_prefix ''tt'' s of None \<Rightarrow> None
      | Some r \<Rightarrow>
        (case run1 is_digit r of None \<Rightarrow> None
         | Some (_, r1) \<Rightarrow>
           (case strip_prefix '':'' r1 of None \<Rightarrow> None
            | Some r2 \<Rightarrow>
              (case run1 is_digit r2 of None \<Rightarrow> None
               | Some (se, r3) \<Rightarrow>
                 (case strip_prefix '':'' r3 of None \<Rightarrow> None
                  | Some r4 \<Rightarrow>
                    (case run1 is_digit r4 of None \<Rightarrow> None
                     | Some (ep, _) \<Rightarrow> Some (se, ep)))))))"

text \<open>\<^verbatim>\<open>width:\s*([\d.]+)%\<close>\<close>

definition width_at :: "string \<Rightarrow> string option" where
  "width_at s =
     (case strip_prefix ''width:'' s of None \<Rightarrow> None
      | Some r \<Rightarrow>
        (case run1 (\<lambda>c. is_digit c \<or> c = CHR ''.'') (dropWhile is_space r) of None \<Rightarrow> None
         | Some (g, r') \<Rightarrow> (if startswith r' ''%'' then Some g else None)))"

text \<open>\<^verbatim>\<open>background-image:\s*url\(["\']?([^"\')\s]+)["\']?\)\<close>\<close>

definition is_quote :: "char \<Rightarrow> bool" where
  "is_quote c = (c = CHR 0x22 \<or> c = CHR 0x27)"

definition opt_quote :: "string \<Rightarrow> string" where
  "opt_quote s = (case s of [] \<Rightarrow> [] | c # cs \<Rightarrow> if is_quote c then cs else s)"

definition bg_url_at :: "string \<Rightarrow> string option" where
  "bg_url_at s =
     (case strip_prefix ''background-image:'' s of None \<Rightarrow> None
      | Some r \<Rightarrow>
        (case strip_prefix ''url('' (dropWhile is_space r) of None \<Rightarrow> None
         | Some r1 \<Rightarrow>
           (case run1 (\<lambda>c. \<not> is_quote c \<and> c \<noteq> CHR '')'' \<and> \<not> is_space c) (opt_quote r1) of
              None \<Rightarrow> None
            | Some (g, r2) \<Rightarrow> (if startswith (opt_quote r2) '')'' then Some g else None))))"

text \<open>\<^verbatim>\<open>poster-shape-(\w+)\<close>\<close>

definition shape_at :: "string \<Rightarrow> string option" where
  "shape_at s =
     (case strip_prefix ''poster-shape-'' s of None \<Rightarrow> None
      | Some r \<Rightarrow> (case run1 is_word r of None \<Rightarrow> None | Some (g, _) \<Rightarrow> Some g))"

text \<open>\<^verbatim>\<open>\b(19|20)\d{2}\b\<close>: the word boundary in front needs the character before the
  position, so this search carries it along.\<close>

definition year_at :: "char option \<Rightarrow> string \<Rightarrow> string option" where
  "year_at prev s =
     (if (case prev of None \<Rightarrow> True | Some p \<Rightarrow> \<not> is_word p)
         \<and> (startswith s ''19'' \<or> startswith s ''20'')
         \<and> length s \<ge> 4 \<and> is_digit (s ! 2) \<and> is_digit (s ! 3)
         \<and> (case drop 4 s of [] \<Rightarrow> True | c # _ \<Rightarrow> \<not> is_word c)
      then Some (take 4 s) else None)"

fun search_year :: "char option \<Rightarrow> string \<Rightarrow> string option" where
  "search_year prev [] = None"
| "search_year prev (c # cs) =
     (case year_at prev (c # cs) of Some g \<Rightarrow> Some g | None \<Rightarrow> search_year (Some c) cs)"

section \<open>The markup scanner: \<^verbatim>\<open>StremioHTMLParser\<close>\<close>

record parser_state =
  items :: "pydict list"
  current_item :: "pydict option"
  in_meta_item :: bool
  in_title_label :: bool
  capture_text :: bool
  current_text_field :: "string option"

definition init_state :: parser_state where
  "init_state = \<lparr>items = [], current_item = None, in_meta_item = False,
     in_title_label = False, capture_text = False, current_text_field = None\<rparr>"

text \<open>\<^verbatim>\<open>if self.current_item\<close>: neither \<^verbatim>\<open>None\<close> nor an empty dict.\<close>

definition item_open :: "parser_state \<Rightarrow> bool" where
  "item_open st = (case current_item st of None \<Rightarrow> False | Some d \<Rightarrow> d \<noteq> [])"

text \<open>A block \<^verbatim>\<open>if self.current_item and ...: self.current_item[...] = ...\<close> that only
  touches the open item.\<close>

definition on_item :: "(pydict \<Rightarrow> py_error + pydict) \<Rightarrow> parser_state \<Rightarrow> py_error + parser_state" where
  "on_item f st =
     (case current_item st of None \<Rightarrow> Inr st
      | Some d \<Rightarrow> if d = [] then Inr st
                  else (case f d of Inl e \<Rightarrow> Inl e
                        | Inr d' \<Rightarrow> Inr (st\<lparr>current_item := Some d'\<rparr>)))"

definition of_attr :: "string option \<Rightarrow> pyval" where
  "of_attr x = (case x of None \<Rightarrow> PNone | Some s \<Rightarrow> PStr s)"

subsection \<open>\<^verbatim>\<open>handle_starttag\<close>, block by block\<close>

text \<open>The dict literal of lines 63-78.\<close>

definition new_item :: "string \<Rightarrow> string option \<Rightarrow> string \<Rightarrow> string \<Rightarrow> pydict" where
  "new_item imdb_id title media_type href =
     [(''imdb_id'', PStr imdb_id),
      (''title'', of_attr title),
      (''type'', PStr (if media_type = ''series'' then ''show'' else ''movie'')),
      (''href'', PStr href),
      (''is_watched'', PBool False),
      (''progress'', PInt 0),
      (''season'', PNone),
      (''episode'', PNone),
      (''poster_url'', PNone),
      (''poster_shape'', PNone),
      (''year'', PNone),
      (''duration'', PNone),
      (''episode_title'', PNone),
      (''release_info'', PNone)]"

text \<open>Lines 61 and 80-82: season and episode from \<^verbatim>\<open>tt...:S:E\<close> in the link target.\<close>

definition with_episode :: "string \<Rightarrow> pydict \<Rightarrow> py_error + pydict" where
  "with_episode href d =
     (case search episode_at href of None \<Rightarrow> Inr d
      | Some (se, ep) \<Rightarrow>
        (case py_int se of Inl e \<Rightarrow> Inl e
         | Inr s \<Rightarrow>
           (case py_int ep of Inl e \<Rightarrow> Inl e
            | Inr p \<Rightarrow> Inr (AList.update ''episode'' (PInt p)
                              (AList.update ''season'' (PInt s) d)))))"

text \<open>Lines 85-87: every \<^verbatim>\<open>data-\<close> attribute of the root element is copied.\<close>

definition copy_data_attrs :: "attrs_dict \<Rightarrow> pydict \<Rightarrow> pydict" where
  "copy_data_attrs ad d =
     foldl (\<lambda>d (k, v). if startswith k ''data-'' then AList.update k (of_attr v) d else d) d ad"

text \<open>Lines 44-87: the entity root, an \<^verbatim>\<open>a\<close> element whose class contains
  \<^verbatim>\<open>meta-item-container\<close>. When its link target carries an identifier, a fresh item
  replaces whatever \<^verbatim>\<open>current_item\<close> held.\<close>

definition meta_item_step :: "string \<Rightarrow> attrs_dict \<Rightarrow> parser_state \<Rightarrow> py_error + parser_state" where
  "meta_item_step tag ad st =
     (if tag = ''a'' \<and> has_key ad ''class'' then
        (case attr_get ad ''class'' of None \<Rightarrow> Inl TypeError
         | Some classes \<Rightarrow>
           if contains ''meta-item-container'' classes then
             (case attr_get ad ''href'' of None \<Rightarrow> Inl TypeError
              | Some href \<Rightarrow>
                (case search imdb_at href of None \<Rightarrow> Inr (st\<lparr>in_meta_item := True\<rparr>)
                 | Some (media_type, imdb_id) \<Rightarrow>
                   (case with_episode href (new_item imdb_id (attr_get ad ''title'') media_type href) of
                      Inl e \<Rightarrow> Inl e
                    | Inr d \<Rightarrow> Inr (st\<lparr>in_meta_item := True,
                                       current_item := Some (copy_data_attrs ad d)\<rparr>))))
           else Inr st)
      else Inr st)"

text \<open>Lines 89-92: the watched icon.\<close>

definition watched_step :: "string \<Rightarrow> attrs_dict \<Rightarrow> parser_state \<Rightarrow> py_error + parser_state" where
  "watched_step tag ad =
     on_item (\<lambda>d.
       if tag = ''div'' \<and> has_key ad ''class'' then
         (case py_in ''watched-icon-layer'' (attr_get ad ''class'') of Inl e \<Rightarrow> Inl e
          | Inr b \<Rightarrow> Inr (if b then AList.update ''is_watched'' (PBool True) d else d))
       else Inr d)"

text \<open>Lines 94-101: the progress bar. The second test looks for \<^verbatim>\<open>progressBar\<close> in the
  lower-cased class, as the source does.\<close>

definition progress_step :: "string \<Rightarrow> attrs_dict \<Rightarrow> parser_state \<Rightarrow> py_error + parser_state" where
  "progress_step tag ad =
     on_item (\<lambda>d.
       if tag = ''div'' \<and> has_key ad ''class'' then
         (case attr_get ad ''class'' of None \<Rightarrow> Inl TypeError
          | Some classes \<Rightarrow>
            if contains ''progress-bar'' classes \<or> contains ''progressBar'' (lower classes) then
              (case attr_get ad ''style'' of None \<Rightarrow> Inl TypeError
               | Some style \<Rightarrow>
                 (case search width_at style of None \<Rightarrow> Inr d
                  | Some g \<Rightarrow>
                    (case py_float g of Inl e \<Rightarrow> Inl e
                     | Inr r \<Rightarrow> Inr (AList.update ''progress'' (PFloat r) d))))
            else Inr d)
       else Inr d)"

text \<open>Lines 103-116: the poster from a \<^verbatim>\<open>background-image\<close> style, and the poster
  shape. \<open>unquote\<close> is \<^verbatim>\<open>urllib.parse.unquote\<close>, a parameter of the model.\<close>

definition poster_step :: "(string \<Rightarrow> string) \<Rightarrow> string \<Rightarrow> attrs_dict \<Rightarrow> parser_state \<Rightarrow> py_error + parser_state" where
  "poster_step unquote tag ad =
     on_item (\<lambda>d.
       if tag = ''div'' \<and> has_key ad ''class'' then
         (case attr_get ad ''class'' of None \<Rightarrow> Inl AttributeError
          | Some classes \<Rightarrow>
            if contains ''poster'' (lower classes) \<or> contains ''thumbnail'' (lower classes)
               \<or> contains ''image'' (lower classes) then
              (case attr_get ad ''style'' of None \<Rightarrow> Inl TypeError
               | Some style \<Rightarrow>
                 (let d1 = (case search bg_url_at style of None \<Rightarrow> d
                            | Some g \<Rightarrow> AList.update ''poster_url'' (PStr (unquote g)) d) in
                  Inr (if contains ''poster-shape'' classes then
                         (case search shape_at classes of None \<Rightarrow> d1
                          | Some g \<Rightarrow> AList.update ''poster_shape'' (PStr g) d1)
                       else d1)))
            else Inr d)
       else Inr d)"

text \<open>Lines 118-125: an \<^verbatim>\<open>img\<close> element gives the poster and the title when they are
  still unset.\<close>

definition set_if_unset :: "string \<Rightarrow> pyval \<Rightarrow> pydict \<Rightarrow> py_error + pydict" where
  "set_if_unset k v d =
     (case dindex d k of Inl e \<Rightarrow> Inl e
      | Inr old \<Rightarrow> Inr (if \<not> truthy old then AList.update k v d else d))"

definition img_step :: "(string \<Rightarrow> string) \<Rightarrow> string \<Rightarrow> attrs_dict \<Rightarrow> parser_state \<Rightarrow> py_error + parser_state" where
  "img_step unquote tag ad =
     on_item (\<lambda>d.
       if tag = ''img'' then
         (case (case attr_get ad ''src'' of None \<Rightarrow> Inr d
                | Some src \<Rightarrow> if src \<noteq> [] then set_if_unset ''poster_url'' (PStr (unquote src)) d
                              else Inr d) of
            Inl e \<Rightarrow> Inl e
          | Inr d1 \<Rightarrow>
            (case attr_get ad ''alt'' of None \<Rightarrow> Inr d1
             | Some alt \<Rightarrow> if alt \<noteq> [] then set_if_unset ''title'' (PStr alt) d1 else Inr d1))
       else Inr d)"

text \<open>Lines 127-153: four blocks of the same shape arm the text capture. Each tests
  the lower-cased class of a \<^verbatim>\<open>div\<close>, \<^verbatim>\<open>span\<close> or \<^verbatim>\<open>p\<close> and, on a match, sets
  \<^verbatim>\<open>capture_text\<close> and overwrites \<^verbatim>\<open>current_text_field\<close>.\<close>

definition capture_step :: "(string \<Rightarrow> bool) \<Rightarrow> string \<Rightarrow> string \<Rightarrow> attrs_dict \<Rightarrow> parser_state \<Rightarrow> py_error + parser_state" where
  "capture_step matches field tag ad st =
     (if item_open st \<and> tag \<in> {''div'', ''span'', ''p''} \<and> has_key ad ''class'' then
        (case py_lower (attr_get ad ''class'') of Inl e \<Rightarrow> Inl e
         | Inr lc \<Rightarrow> Inr (if matches lc
                          then st\<lparr>capture_text := True, current_text_field := Some field\<rparr>
                          else st))
      else Inr st)"

definition title_rule :: "string \<Rightarrow> bool" where
  "title_rule lc = (contains ''title'' lc \<or> contains ''name'' lc \<or> contains ''label'' lc)"

definition release_rule :: "string \<Rightarrow> bool" where
  "release_rule lc = (contains ''year'' lc \<or> contains ''release'' lc \<or> contains ''date'' lc)"

definition duration_rule :: "string \<Rightarrow> bool" where
  "duration_rule lc = (contains ''duration'' lc \<or> contains ''runtime'' lc \<or> contains ''time'' lc)"

definition episode_title_rule :: "string \<Rightarrow> bool" where
  "episode_title_rule lc = (contains ''episode'' lc \<and> contains ''title'' lc)"

text \<open>Lines 155-162: any element with a \<^verbatim>\<open>background-image\<close> style, when no poster is
  set yet.\<close>

definition inline_style_step :: "(string \<Rightarrow> string) \<Rightarrow> string \<Rightarrow> attrs_dict \<Rightarrow> parser_state \<Rightarrow> py_error + parser_state" where
  "inline_style_step unquote tag ad =
     on_item (\<lambda>d.
       if has_key ad ''style'' then
         (case attr_get ad ''style'' of None \<Rightarrow> Inl TypeError
          | Some style \<Rightarrow>
            if contains ''background-image'' style then
              (case dindex d ''poster_url'' of Inl e \<Rightarrow> Inl e
               | Inr old \<Rightarrow>
                 if \<not> truthy old then
                   (case search bg_url_at style of None \<Rightarrow> Inr d
                    | Some g \<Rightarrow> Inr (AList.update ''poster_url'' (PStr (unquote g)) d))
                 else Inr d)
            else Inr d)
       else Inr d)"

text \<open>The blocks run in the order of the source; an exception in one ends the call.\<close>

fun steps :: "('s \<Rightarrow> py_error + 's) list \<Rightarrow> 's \<Rightarrow> py_error + 's" where
  "steps [] s = Inr s"
| "steps (f # fs) s = (case f s of Inl e \<Rightarrow> Inl e | Inr s' \<Rightarrow> steps fs s')"

definition handle_starttag :: "(string \<Rightarrow> string) \<Rightarrow> parser_state \<Rightarrow> string \<Rightarrow> (string \<times> string option) list \<Rightarrow> py_error + parser_state" where
  "handle_starttag unquote st tag attrs =
     (let ad = dict_of attrs in
      steps [meta_item_step tag ad,
             watched_step tag ad,
             progress_step tag ad,
             poster_step unquote tag ad,
             img_step unquote tag ad,
             capture_step title_rule ''title_text'' tag ad,
             capture_step release_rule ''release_info'' tag ad,
             capture_step duration_rule ''duration'' tag ad,
             capture_step episode_title_rule ''episode_title'' tag ad,
             inline_style_step unquote tag ad] st)"

subsection \<open>\<^verbatim>\<open>handle_data\<close> and \<^verbatim>\<open>handle_endtag\<close>\<close>

definition release_text :: "string \<Rightarrow> pydict \<Rightarrow> py_error + pydict" where
  "release_text txt d =
     (let d1 = AList.update ''release_info'' (PStr txt) d in
      case search_year None txt of None \<Rightarrow> Inr d1
      | Some g \<Rightarrow> (case py_int g of Inl e \<Rightarrow> Inl e
                   | Inr y \<Rightarrow> Inr (AList.update ''year'' (PInt y) d1)))"

definition handle_data :: "parser_state \<Rightarrow> string \<Rightarrow> py_error + parser_state" where
  "handle_data st data =
     (if capture_text st \<and> strip data \<noteq> [] then
        on_item (\<lambda>d.
          if current_text_field st = Some ''release_info'' then release_text (strip data) d
          else if current_text_field st = Some ''duration'' then
            Inr (AList.update ''duration'' (PStr (strip data)) d)
          else if current_text_field st = Some ''episode_title'' then
            Inr (AList.update ''episode_title'' (PStr (strip data)) d)
          else if current_text_field st = Some ''title_text'' then
            set_if_unset ''title'' (PStr (strip data)) d
          else Inr d) st
      else Inr st)"

text \<open>Line 190: the fields that are still \<^verbatim>\<open>None\<close> are dropped.\<close>

definition finalize :: "pydict \<Rightarrow> pydict" where
  "finalize d = filter (\<lambda>(k, v). v \<noteq> PNone) d"

definition handle_endtag :: "parser_state \<Rightarrow> string \<Rightarrow> parser_state" where
  "handle_endtag st tag =
     (let st1 = (if tag \<in> {''div'', ''span'', ''p''}
                 then st\<lparr>capture_text := False, current_text_field := None\<rparr> else st) in
      if tag = ''a'' \<and> in_meta_item st1 then
        (case current_item st1 of
           None \<Rightarrow> st1
         | Some d \<Rightarrow> if d = [] then st1
                     else st1\<lparr>items := items st1 @ [finalize d], current_item := None\<rparr>)
        \<lparr>in_meta_item := False\<rparr>
      else st1)"

subsection \<open>The token stream\<close>

text \<open>\<^verbatim>\<open>HTMLParser.feed\<close> calls the handlers once per token, in document order. The
  tokens are the model's input; a self-closing tag is a start tag followed by an end
  tag. The tokenizer itself is the library's: \<^verbatim>\<open>parse_stremio_html\<close> takes it as a
  parameter.\<close>

datatype event = StartTag string "(string \<times> string option) list" | EndTag string | Data string

fun handle_event :: "(string \<Rightarrow> string) \<Rightarrow> parser_state \<Rightarrow> event \<Rightarrow> py_error + parser_state" where
  "handle_event unquote st (StartTag tag attrs) = handle_starttag unquote st tag attrs"
| "handle_event unquote st (EndTag tag) = Inr (handle_endtag st tag)"
| "handle_event unquote st (Data data) = handle_data st data"

fun feed :: "(string \<Rightarrow> string) \<Rightarrow> parser_state \<Rightarrow> event list \<Rightarrow> py_error + parser_state" where
  "feed unquote st [] = Inr st"
| "feed unquote st (e # es) =
     (case handle_event unquote st e of Inl err \<Rightarrow> Inl err | Inr st' \<Rightarrow> feed unquote st' es)"

definition scan :: "(string \<Rightarrow> string) \<Rightarrow> event list \<Rightarrow> py_error + pydict list" where
  "scan unquote es = (case feed unquote init_state es of Inl e \<Rightarrow> Inl e | Inr st \<Rightarrow> Inr (items st))"

definition parse_stremio_html :: "(string \<Rightarrow> event list) \<Rightarrow> (string \<Rightarrow> string) \<Rightarrow> string \<Rightarrow> py_error + pydict list" where
  "parse_stremio_html tokenize unquote html_content = scan unquote (tokenize html_content)"

subsection \<open>Two tests of \<^verbatim>\<open>handle_starttag\<close> as functions of the tag\<close>

text \<open>A progress-bar element: the start tag for which lines 95-97 go on to read the
  \<^verbatim>\<open>width\<close> style.\<close>

definition progress_bar_tag :: "event \<Rightarrow> bool" where
  "progress_bar_tag e =
     (case e of
        StartTag tag attrs \<Rightarrow>
          tag = ''div'' \<and>
          (case map_of (dict_of attrs) ''class'' of
             Some (Some classes) \<Rightarrow>
               contains ''progress-bar'' classes \<or> contains ''progressBar'' (lower classes)
           | _ \<Rightarrow> False)
      | _ \<Rightarrow> False)"


section \<open>The format transformer\<close>

text \<open>\<^verbatim>\<open>item.get('is_watched', False) or item.get('progress', 0) > 90\<close>: the comparison
  is only evaluated when the marker is not truthy.\<close>

definition is_watched :: "pydict \<Rightarrow> py_error + bool" where
  "is_watched item =
     (if truthy (dget_default item ''is_watched'' (PBool False)) then Inr True
      else py_gt (dget_default item ''progress'' (PInt 0)) 90)"

text \<open>\<^verbatim>\<open>if item.get(k): trakt_item[k'] = item[k]\<close>\<close>

definition copy_if_truthy :: "pydict \<Rightarrow> string \<Rightarrow> string \<Rightarrow> pydict \<Rightarrow> pydict" where
  "copy_if_truthy item k k' t = (if truthy (dget item k) then AList.update k' (dget item k) t else t)"

text \<open>The body of the loop of \<^verbatim>\<open>convert_to_trakt_format\<close>. \<open>clock n\<close> is what the
  \<open>n\<close>-th call of \<^verbatim>\<open>datetime.now().isoformat()\<close> returns; the number of calls made so
  far is threaded through.\<close>

definition convert_item :: "(nat \<Rightarrow> string) \<Rightarrow> bool \<Rightarrow> bool \<Rightarrow> nat \<Rightarrow> pydict \<Rightarrow> py_error + (pydict \<times> nat)" where
  "convert_item clock add_watchlist mark_unknown_dates n item =
     (let t0 = [(''imdb_id'', dget item ''imdb_id''), (''type'', dget item ''type'')];
          t1 = copy_if_truthy item ''title'' ''title'' t0;
          t2 = (if dget item ''season'' \<noteq> PNone \<and> dget item ''episode'' \<noteq> PNone
                then AList.update ''episode'' (dget item ''episode'')
                       (AList.update ''season'' (dget item ''season'')
                         (AList.update ''type'' (PStr ''episode'') t1))
                else t1);
          t3 = (if add_watchlist then AList.update ''watchlisted_at'' (PStr (clock n @ ''Z'')) t2
                else t2);
          n1 = (if add_watchlist then Suc n else n)
      in case is_watched item of Inl e \<Rightarrow> Inl e
         | Inr w \<Rightarrow>
           (let t4 = (if w then
                        (if mark_unknown_dates then AList.update ''watched_at'' (PStr ''unknown'') t3
                         else AList.update ''watched_at'' (PStr (clock n1 @ ''Z'')) t3)
                      else t3);
                n2 = (if w \<and> \<not> mark_unknown_dates then Suc n1 else n1);
                t5 = copy_if_truthy item ''href'' ''_href'' t4;
                t6 = copy_if_truthy item ''poster_url'' ''_poster_url'' t5
            in case py_gt (dget_default item ''progress'' (PInt 0)) 0 of Inl e \<Rightarrow> Inl e
               | Inr pos \<Rightarrow>
                 (let t7 = (if pos then AList.update ''_progress'' (dget item ''progress'') t6 else t6);
                      t8 = copy_if_truthy item ''year'' ''_year'' t7;
                      t9 = copy_if_truthy item ''duration'' ''_duration'' t8;
                      t10 = copy_if_truthy item ''episode_title'' ''_episode_title'' t9
                  in Inr (t10, n2))))"

fun convert_to_trakt_format :: "(nat \<Rightarrow> string) \<Rightarrow> bool \<Rightarrow> bool \<Rightarrow> nat \<Rightarrow> pydict list \<Rightarrow> py_error + (pydict list \<times> nat)" where
  "convert_to_trakt_format clock add_watchlist mark_unknown_dates n [] = Inr ([], n)"
| "convert_to_trakt_format clock add_watchlist mark_unknown_dates n (item # rest) =
     (case convert_item clock add_watchlist mark_unknown_dates n item of Inl e \<Rightarrow> Inl e
      | Inr (t, n') \<Rightarrow>
        (case convert_to_trakt_format clock add_watchlist mark_unknown_dates n' rest of
           Inl e \<Rightarrow> Inl e
         | Inr (ts, n'') \<Rightarrow> Inr (t # ts, n'')))"

text \<open>\<^verbatim>\<open>if k in item: entry[k] = item[k]\<close>\<close>

definition copy_if_present :: "pydict \<Rightarrow> string \<Rightarrow> pydict \<Rightarrow> pydict" where
  "copy_if_present item k e = (if has_key item k then AList.update k (dget item k) e else e)"

text \<open>The body of the loop of \<^verbatim>\<open>format_for_trakt_import\<close>.\<close>

definition format_entry :: "pydict \<Rightarrow> py_error + pydict" where
  "format_entry item =
     (case dindex item ''imdb_id'' of Inl e \<Rightarrow> Inl e
      | Inr imdb_id \<Rightarrow>
        (case dindex item ''type'' of Inl e \<Rightarrow> Inl e
         | Inr ty \<Rightarrow>
           (let e0 = [(''imdb_id'', imdb_id), (''type'', ty)];
                e1 = copy_if_truthy item ''title'' ''title'' e0;
                e2 = copy_if_present item ''watched_at'' e1;
                e3 = copy_if_present item ''watchlisted_at'' e2;
                e4 = (if has_key item ''rating''
                      then copy_if_present item ''rated_at'' (AList.update ''rating'' (dget item ''rating'') e3)
                      else e3);
                e5 = (if ty = PStr ''episode''
                      then AList.update ''episode'' (dget item ''episode'')
                             (AList.update ''season'' (dget item ''season'') e4)
                      else e4)
            in Inr (foldl (\<lambda>e (k, v). if startswith k ''_'' \<and> v \<noteq> PNone then AList.update k v e else e)
                      e5 item))))"

fun format_for_trakt_import :: "pydict list \<Rightarrow> py_error + pydict list" where
  "format_for_trakt_import [] = Inr []"
| "format_for_trakt_import (item # rest) =
     (case format_entry item of Inl e \<Rightarrow> Inl e
      | Inr entry \<Rightarrow>
        (case format_for_trakt_import rest of Inl e \<Rightarrow> Inl e
         | Inr entries \<Rightarrow> Inr (entry # entries)))"

section \<open>The run: \<^verbatim>\<open>main\<close>\<close>

text \<open>A list comprehension \<^verbatim>\<open>[x for x in xs if test(x)]\<close> whose test may raise.\<close>

fun filter_raising :: "('a \<Rightarrow> py_error + bool) \<Rightarrow> 'a list \<Rightarrow> py_error + 'a list" where
  "filter_raising test [] = Inr []"
| "filter_raising test (x # xs) =
     (case test x of Inl e \<Rightarrow> Inl e
      | Inr b \<Rightarrow>
        (case filter_raising test xs of Inl e \<Rightarrow> Inl e
         | Inr ys \<Rightarrow> Inr (if b then x # ys else ys)))"

record args =
  no_watchlist :: bool
  use_current_date :: bool
  watched_only :: bool
  min_progress :: real
  output_name :: "string option"

text \<open>What the run writes to the diagnostic stream: literal lines, and the two
  summaries with their counts.\<close>

datatype diag =
  Line string
  | Found nat nat nat nat nat
  | Exported nat
  | Written_to string

text \<open>How a run ends: \<^verbatim>\<open>sys.exit(code)\<close>, an uncaught exception, or the JSON array
  written to the output; each with the diagnostics printed so far.\<close>

datatype outcome =
  Exit int "diag list"
  | Raised py_error "diag list"
  | Success "pydict list" "diag list"

definition empty_input_message :: string where
  "empty_input_message = ''Error: Input is empty. Please provide a valid Stremio HTML export.''"

definition no_items_messages :: "diag list" where
  "no_items_messages =
     [Line ''Error: No media items found in the HTML.'',
      Line [],
      Line ''Make sure you're exporting from Stremio's Library page.'',
      Line ''The HTML should contain elements with 'meta-item-container' class.'']"

text \<open>Lines 381-387: the counts of the summary line.\<close>

definition summary :: "pydict list \<Rightarrow> py_error + diag" where
  "summary its =
     (case filter_raising
             (\<lambda>i. if truthy (dget i ''is_watched'') then Inr True
                  else py_gt (dget_default i ''progress'' (PInt 0)) 90) its of
        Inl e \<Rightarrow> Inl e
      | Inr ws \<Rightarrow>
        Inr (Found (length its)
               (length (filter (\<lambda>i. dget i ''type'' = PStr ''movie'') its))
               (length (filter (\<lambda>i. dget i ''type'' = PStr ''show'' \<and> \<not> truthy (dget i ''season'')) its))
               (length (filter (\<lambda>i. dget i ''season'' \<noteq> PNone) its))
               (length ws)))"

text \<open>Lines 389-394 and 396-401: the two filters, applied before the conversion.\<close>

definition filter_min_progress :: "real \<Rightarrow> pydict list \<Rightarrow> py_error + pydict list" where
  "filter_min_progress mp its =
     (if mp > 0 then filter_raising (\<lambda>item. py_ge (dget_default item ''progress'' (PInt 0)) mp) its
      else Inr its)"

definition filter_watched_only :: "bool \<Rightarrow> pydict list \<Rightarrow> py_error + pydict list" where
  "filter_watched_only wo its = (if wo then filter_raising is_watched its else Inr its)"

definition run_main :: "(string \<Rightarrow> event list) \<Rightarrow> (string \<Rightarrow> string) \<Rightarrow> (nat \<Rightarrow> string) \<Rightarrow> args \<Rightarrow> string \<Rightarrow> outcome" where
  "run_main tokenize unquote clock a html_content =
     (if strip html_content = [] then Exit 1 [Line empty_input_message]
      else
        (case parse_stremio_html tokenize unquote html_content of Inl e \<Rightarrow> Raised e []
         | Inr its \<Rightarrow>
           if its = [] then Exit 1 no_items_messages
           else
             (case summary its of Inl e \<Rightarrow> Raised e []
              | Inr found \<Rightarrow>
                (case filter_min_progress (min_progress a) its of Inl e \<Rightarrow> Raised e [found]
                 | Inr its1 \<Rightarrow>
                   (case filter_watched_only (watched_only a) its1 of Inl e \<Rightarrow> Raised e [found]
                    | Inr its2 \<Rightarrow>
                      (case convert_to_trakt_format clock (\<not> no_watchlist a) (\<not> use_current_date a) 0 its2 of
                         Inl e \<Rightarrow> Raised e [found]
                       | Inr (trakt_items, _) \<Rightarrow>
                         (case format_for_trakt_import trakt_items of Inl e \<Rightarrow> Raised e [found]
                          | Inr output \<Rightarrow>
                            Success output
                              ([found, Exported (length output)] @
                               (case output_name a of None \<Rightarrow> [] | Some name \<Rightarrow> [Written_to name])))))))))"

section \<open>Auxiliary predicates for the scanner's invariants\<close>

text \<open>These are not part of the program: they state what a block of the scanner may
  change, and what holds of every open and every finalized item.\<close>

text \<open>\<open>item_frame K d d'\<close>: the dict \<open>d'\<close> agrees with \<open>d\<close> outside the keys \<open>K\<close>, stays
  non-empty and keeps its keys distinct.\<close>

definition item_frame :: "string set \<Rightarrow> pydict \<Rightarrow> pydict \<Rightarrow> bool" where
  "item_frame K d d' =
     ((d \<noteq> [] \<longrightarrow> d' \<noteq> []) \<and> (distinct (map fst d) \<longrightarrow> distinct (map fst d'))
      \<and> (\<forall>k. k \<notin> K \<longrightarrow> map_of d' k = map_of d k))"

text \<open>The same for a scanner state: the output list and \<^verbatim>\<open>in_meta_item\<close> are unchanged.\<close>

definition state_frame :: "string set \<Rightarrow> parser_state \<Rightarrow> parser_state \<Rightarrow> bool" where
  "state_frame K st st' =
     (items st' = items st \<and> in_meta_item st' = in_meta_item st
      \<and> rel_option (item_frame K) (current_item st) (current_item st'))"

text \<open>An open item: distinct keys, a progress that is the initial \<^verbatim>\<open>0\<close> or a non-negative
  float, and season and episode both \<^verbatim>\<open>None\<close> or both non-negative integers.\<close>

definition item_ok :: "pydict \<Rightarrow> bool" where
  "item_ok d =
     (distinct (map fst d)
      \<and> (map_of d ''progress'' = Some (PInt 0) \<or> (\<exists>r\<ge>0. map_of d ''progress'' = Some (PFloat r)))
      \<and> ((map_of d ''season'' = Some PNone \<and> map_of d ''episode'' = Some PNone)
          \<or> (\<exists>s e. 0 \<le> s \<and> 0 \<le> e \<and> map_of d ''season'' = Some (PInt s)
                   \<and> map_of d ''episode'' = Some (PInt e))))"

text \<open>A finalized item: no \<^verbatim>\<open>None\<close> value, and the same for progress, season and episode
  with absent keys in place of \<^verbatim>\<open>None\<close>.\<close>

definition final_ok :: "pydict \<Rightarrow> bool" where
  "final_ok it =
     (list_all (\<lambda>(k, v). v \<noteq> PNone) it
      \<and> (map_of it ''progress'' = Some (PInt 0) \<or> (\<exists>r\<ge>0. map_of it ''progress'' = Some (PFloat r)))
      \<and> ((map_of it ''season'' = None \<and> map_of it ''episode'' = None)
          \<or> (\<exists>s e. 0 \<le> s \<and> 0 \<le> e \<and> map_of it ''season'' = Some (PInt s)
                   \<and> map_of it ''episode'' = Some (PInt e))))"

definition state_ok :: "parser_state \<Rightarrow> bool" where
  "state_ok st = (list_all final_ok (items st) \<and> (\<forall>d. current_item st = Some d \<longrightarrow> item_ok d))"

text \<open>The open item, if any, still has the initial progress.\<close>

definition progress_zero :: "parser_state \<Rightarrow> bool" where
  "progress_zero st = (\<forall>d. current_item st = Some d \<longrightarrow> map_of d ''progress'' = Some (PInt 0))"

section \<open>Properties of the run\<close>

lemma dropWhile_all_iff: "(\<forall>x\<in>set (dropWhile P xs). P x) = (\<forall>x\<in>set xs. P x)"
proof
  assume a: "\<forall>x\<in>set (dropWhile P xs). P x"
  have "dropWhile P xs = []"
  proof (rule ccontr)
    assume n: "dropWhile P xs \<noteq> []"
    then have "\<not> P (hd (dropWhile P xs))" by (rule hd_dropWhile)
    moreover have "hd (dropWhile P xs) \<in> set (dropWhile P xs)" using n by simp
    ultimately show False using a by blast
  qed
  then show "\<forall>x\<in>set xs. P x" by (simp add: dropWhile_eq_Nil_conv)
next
  assume "\<forall>x\<in>set xs. P x"
  then show "\<forall>x\<in>set (dropWhile P xs). P x" by (meson set_dropWhileD)
qed

lemma strip_empty_iff: "(strip s = []) = list_all is_space s"
  by (simp add: strip_def list_all_iff dropWhile_eq_Nil_conv dropWhile_all_iff)

text \<open>
  Claim C9. The run ends with the empty-input failure (\<^verbatim>\<open>sys.exit(1)\<close> after the one
  diagnostic line, nothing written to the output) exactly when the input document is
  empty or consists of whitespace only. The outcome for such a document is the same for
  every tokenizer, percent-decoder, clock and option set: the scanner is not consulted.
\<close>

theorem empty_input_failure:
  "(run_main tokenize unquote clock a html = Exit 1 [Line empty_input_message])
     = list_all is_space html"
proof (cases "strip html = []")
  case True
  then show ?thesis by (simp add: run_main_def strip_empty_iff)
next
  case False
  have "run_main tokenize unquote clock a html \<noteq> Exit 1 [Line empty_input_message]"
    using False
    by (simp add: run_main_def no_items_messages_def split: sum.split prod.split)
  with False show ?thesis by (simp add: strip_empty_iff)
qed


section \<open>Properties of the transformer\<close>

lemma map_of_copy_if_truthy:
  "map_of (copy_if_truthy item k k' t) x =
     (if x = k' \<and> truthy (dget item k) then Some (dget item k) else map_of t x)"
  by (simp add: copy_if_truthy_def update_conv')

lemma map_of_copy_if_present:
  "map_of (copy_if_present item k e) x =
     (if x = k \<and> has_key item k then Some (dget item k) else map_of e x)"
  by (simp add: copy_if_present_def update_conv')

lemma is_watched_eq:
  "is_watched item = Inr w \<Longrightarrow>
     w = (truthy (dget_default item ''is_watched'' (PBool False))
          \<or> (\<exists>x. num_of (dget_default item ''progress'' (PInt 0)) = Some x \<and> 90 < x))"
  by (auto simp: is_watched_def py_gt_def split: if_splits option.splits)

lemma convert_item_fields:
  assumes "convert_item clock aw mu n item = Inr (t, n')"
  shows "\<exists>w. is_watched item = Inr w
     \<and> map_of t ''watched_at'' =
         (if w then Some (PStr (if mu then ''unknown'' else clock (if aw then Suc n else n) @ ''Z''))
          else None)
     \<and> map_of t ''type'' =
         Some (if dget item ''season'' \<noteq> PNone \<and> dget item ''episode'' \<noteq> PNone
               then PStr ''episode'' else dget item ''type'')
     \<and> map_of t ''imdb_id'' = Some (dget item ''imdb_id'')
     \<and> n' = (if aw then Suc n else n) + (if w \<and> \<not> mu then 1 else 0)"
proof (cases "is_watched item")
  case (Inl e)
  with assms show ?thesis by (simp add: convert_item_def Let_def)
next
  case (Inr w)
  note w = this
  show ?thesis
  proof (cases "py_gt (dget_default item ''progress'' (PInt 0)) 0")
    case (Inl e)
    with assms w show ?thesis by (simp add: convert_item_def Let_def)
  next
    case (Inr pos)
    with assms w have t: "t = copy_if_truthy item ''episode_title'' ''_episode_title''
        (copy_if_truthy item ''duration'' ''_duration''
        (copy_if_truthy item ''year'' ''_year''
        ((if pos then AList.update ''_progress'' (dget item ''progress'') else id)
        (copy_if_truthy item ''poster_url'' ''_poster_url''
        (copy_if_truthy item ''href'' ''_href''
        ((if w then AList.update ''watched_at'' (PStr (if mu then ''unknown'' else clock (if aw then Suc n else n) @ ''Z'')) else id)
        ((if aw then AList.update ''watchlisted_at'' (PStr (clock n @ ''Z'')) else id)
        ((if dget item ''season'' \<noteq> PNone \<and> dget item ''episode'' \<noteq> PNone
          then (\<lambda>t1. AList.update ''episode'' (dget item ''episode'')
                       (AList.update ''season'' (dget item ''season'')
                         (AList.update ''type'' (PStr ''episode'') t1))) else id)
        (copy_if_truthy item ''title'' ''title''
          [(''imdb_id'', dget item ''imdb_id''), (''type'', dget item ''type'')])))))))))"
      and n': "n' = (if aw then Suc n else n) + (if w \<and> \<not> mu then 1 else 0)"
      by (auto simp: convert_item_def Let_def)
    show ?thesis
      unfolding t
      using w n' by (simp add: map_of_copy_if_truthy update_conv')
  qed
qed


lemma map_of_foldl_underscore:
  "\<not> startswith x ''_'' \<Longrightarrow>
   map_of (foldl (\<lambda>e (k, v). if startswith k ''_'' \<and> v \<noteq> PNone then AList.update k v e else e) e0 xs) x
     = map_of e0 x"
  by (induction xs arbitrary: e0) (auto simp: update_conv')

lemma format_entry_fields:
  assumes "map_of t ''imdb_id'' = Some a" and "map_of t ''type'' = Some b"
  shows "\<exists>e. format_entry t = Inr e \<and> map_of e ''type'' = Some b
           \<and> map_of e ''imdb_id'' = Some a
           \<and> map_of e ''watched_at'' = map_of t ''watched_at''"
  using assms
  by (simp add: format_entry_def dindex_def Let_def map_of_foldl_underscore update_conv'
        map_of_copy_if_truthy map_of_copy_if_present has_key_def dget_def split: option.split)


lemma convert_rel:
  assumes "convert_to_trakt_format clock aw mu n its = Inr (ts, n')"
  shows "n \<le> n' \<and> list_all2 (\<lambda>item t. \<exists>w k. is_watched item = Inr w \<and> n \<le> k \<and> (w \<and> \<not> mu \<longrightarrow> k < n')
        \<and> map_of t ''watched_at'' =
             (if w then Some (PStr (if mu then ''unknown'' else clock k @ ''Z'')) else None)
        \<and> map_of t ''type'' =
             Some (if dget item ''season'' \<noteq> PNone \<and> dget item ''episode'' \<noteq> PNone
                   then PStr ''episode'' else dget item ''type'')
        \<and> map_of t ''imdb_id'' = Some (dget item ''imdb_id'')) its ts"
  using assms
proof (induction its arbitrary: n ts)
  case Nil
  then show ?case by simp
next
  case (Cons item rest)
  from Cons.prems obtain t n1 ts' where
    c: "convert_item clock aw mu n item = Inr (t, n1)"
    and r: "convert_to_trakt_format clock aw mu n1 rest = Inr (ts', n')"
    and ts: "ts = t # ts'"
    by (auto split: sum.splits prod.splits)
  from convert_item_fields[OF c] obtain w where
    w: "is_watched item = Inr w"
    and wa: "map_of t ''watched_at'' =
         (if w then Some (PStr (if mu then ''unknown'' else clock (if aw then Suc n else n) @ ''Z''))
          else None)"
    and ty: "map_of t ''type'' =
         Some (if dget item ''season'' \<noteq> PNone \<and> dget item ''episode'' \<noteq> PNone
               then PStr ''episode'' else dget item ''type'')"
    and im: "map_of t ''imdb_id'' = Some (dget item ''imdb_id'')"
    and n1: "n1 = (if aw then Suc n else n) + (if w \<and> \<not> mu then 1 else 0)"
    by blast
  from Cons.IH[OF r] have le: "n1 \<le> n'"
    and rel: "list_all2 (\<lambda>item t. \<exists>w k. is_watched item = Inr w \<and> n1 \<le> k \<and> (w \<and> \<not> mu \<longrightarrow> k < n')
        \<and> map_of t ''watched_at'' =
             (if w then Some (PStr (if mu then ''unknown'' else clock k @ ''Z'')) else None)
        \<and> map_of t ''type'' =
             Some (if dget item ''season'' \<noteq> PNone \<and> dget item ''episode'' \<noteq> PNone
                   then PStr ''episode'' else dget item ''type'')
        \<and> map_of t ''imdb_id'' = Some (dget item ''imdb_id'')) rest ts'"
    by blast+
  have nn1: "n \<le> n1" using n1 by simp
  have rel': "list_all2 (\<lambda>item t. \<exists>w k. is_watched item = Inr w \<and> n \<le> k \<and> (w \<and> \<not> mu \<longrightarrow> k < n')
        \<and> map_of t ''watched_at'' =
             (if w then Some (PStr (if mu then ''unknown'' else clock k @ ''Z'')) else None)
        \<and> map_of t ''type'' =
             Some (if dget item ''season'' \<noteq> PNone \<and> dget item ''episode'' \<noteq> PNone
                   then PStr ''episode'' else dget item ''type'')
        \<and> map_of t ''imdb_id'' = Some (dget item ''imdb_id'')) rest ts'"
  proof (rule list_all2_mono[OF rel])
    fix item t
    assume "\<exists>w k. is_watched item = Inr w \<and> n1 \<le> k \<and> (w \<and> \<not> mu \<longrightarrow> k < n')
        \<and> map_of t ''watched_at'' =
             (if w then Some (PStr (if mu then ''unknown'' else clock k @ ''Z'')) else None)
        \<and> map_of t ''type'' =
             Some (if dget item ''season'' \<noteq> PNone \<and> dget item ''episode'' \<noteq> PNone
                   then PStr ''episode'' else dget item ''type'')
        \<and> map_of t ''imdb_id'' = Some (dget item ''imdb_id'')"
    then obtain w k where "is_watched item = Inr w" "n1 \<le> k" "w \<and> \<not> mu \<longrightarrow> k < n'"
        "map_of t ''watched_at'' =
             (if w then Some (PStr (if mu then ''unknown'' else clock k @ ''Z'')) else None)"
        "map_of t ''type'' =
             Some (if dget item ''season'' \<noteq> PNone \<and> dget item ''episode'' \<noteq> PNone
                   then PStr ''episode'' else dget item ''type'')"
        "map_of t ''imdb_id'' = Some (dget item ''imdb_id'')"
      by blast
    moreover from this nn1 have "n \<le> k" by simp
    ultimately show "\<exists>w k. is_watched item = Inr w \<and> n \<le> k \<and> (w \<and> \<not> mu \<longrightarrow> k < n')
        \<and> map_of t ''watched_at'' =
             (if w then Some (PStr (if mu then ''unknown'' else clock k @ ''Z'')) else None)
        \<and> map_of t ''type'' =
             Some (if dget item ''season'' \<noteq> PNone \<and> dget item ''episode'' \<noteq> PNone
                   then PStr ''episode'' else dget item ''type'')
        \<and> map_of t ''imdb_id'' = Some (dget item ''imdb_id'')"
      by blast
  qed
  have hd: "\<exists>w k. is_watched item = Inr w \<and> n \<le> k \<and> (w \<and> \<not> mu \<longrightarrow> k < n')
        \<and> map_of t ''watched_at'' =
             (if w then Some (PStr (if mu then ''unknown'' else clock k @ ''Z'')) else None)
        \<and> map_of t ''type'' =
             Some (if dget item ''season'' \<noteq> PNone \<and> dget item ''episode'' \<noteq> PNone
                   then PStr ''episode'' else dget item ''type'')
        \<and> map_of t ''imdb_id'' = Some (dget item ''imdb_id'')"
    apply (rule exI[of _ w], rule exI[of _ "if aw then Suc n else n"])
    using w wa ty im n1 le by auto
  show ?case
    using nn1 le ts rel' hd by simp
qed

lemma format_rel:
  assumes "list_all (\<lambda>t. map_of t ''imdb_id'' \<noteq> None \<and> map_of t ''type'' \<noteq> None) ts"
  shows "\<exists>out. format_for_trakt_import ts = Inr out \<and>
           list_all2 (\<lambda>t e. map_of e ''type'' = map_of t ''type''
                        \<and> map_of e ''imdb_id'' = map_of t ''imdb_id''
                        \<and> map_of e ''watched_at'' = map_of t ''watched_at'') ts out"
  using assms
proof (induction ts)
  case Nil
  then show ?case by simp
next
  case (Cons t ts)
  then obtain a b where ab: "map_of t ''imdb_id'' = Some a" "map_of t ''type'' = Some b"
    by auto
  from format_entry_fields[OF ab] obtain e where
    "format_entry t = Inr e" "map_of e ''type'' = Some b" "map_of e ''imdb_id'' = Some a"
    "map_of e ''watched_at'' = map_of t ''watched_at''"
    by blast
  moreover from Cons obtain out where "format_for_trakt_import ts = Inr out"
    "list_all2 (\<lambda>t e. map_of e ''type'' = map_of t ''type''
                        \<and> map_of e ''imdb_id'' = map_of t ''imdb_id''
                        \<and> map_of e ''watched_at'' = map_of t ''watched_at'') ts out"
    by auto
  ultimately show ?case using ab by simp
qed

lemma convert_format_rel:
  assumes "convert_to_trakt_format clock aw mu n its = Inr (ts, n')"
  shows "\<exists>out. format_for_trakt_import ts = Inr out \<and> list_all2 (\<lambda>item e. \<exists>w k. is_watched item = Inr w \<and> n \<le> k \<and> (w \<and> \<not> mu \<longrightarrow> k < n')
        \<and> map_of e ''watched_at'' =
             (if w then Some (PStr (if mu then ''unknown'' else clock k @ ''Z'')) else None)
        \<and> map_of e ''type'' =
             Some (if dget item ''season'' \<noteq> PNone \<and> dget item ''episode'' \<noteq> PNone
                   then PStr ''episode'' else dget item ''type'')
        \<and> map_of e ''imdb_id'' = Some (dget item ''imdb_id'')) its out"
proof -
  from convert_rel[OF assms] have
    r: "list_all2 (\<lambda>item t. \<exists>w k. is_watched item = Inr w \<and> n \<le> k \<and> (w \<and> \<not> mu \<longrightarrow> k < n')
        \<and> map_of t ''watched_at'' =
             (if w then Some (PStr (if mu then ''unknown'' else clock k @ ''Z'')) else None)
        \<and> map_of t ''type'' =
             Some (if dget item ''season'' \<noteq> PNone \<and> dget item ''episode'' \<noteq> PNone
                   then PStr ''episode'' else dget item ''type'')
        \<and> map_of t ''imdb_id'' = Some (dget item ''imdb_id'')) its ts"
    by blast
  then have "list_all (\<lambda>t. map_of t ''imdb_id'' \<noteq> None \<and> map_of t ''type'' \<noteq> None) ts"
    by (auto simp: list_all2_conv_all_nth list_all_length)
  from format_rel[OF this] obtain out where
    f: "format_for_trakt_import ts = Inr out"
    and s: "list_all2 (\<lambda>t e. map_of e ''type'' = map_of t ''type''
                        \<and> map_of e ''imdb_id'' = map_of t ''imdb_id''
                        \<and> map_of e ''watched_at'' = map_of t ''watched_at'') ts out"
    by blast
  from r s have "list_all2 (\<lambda>item e. \<exists>w k. is_watched item = Inr w \<and> n \<le> k \<and> (w \<and> \<not> mu \<longrightarrow> k < n')
        \<and> map_of e ''watched_at'' =
             (if w then Some (PStr (if mu then ''unknown'' else clock k @ ''Z'')) else None)
        \<and> map_of e ''type'' =
             Some (if dget item ''season'' \<noteq> PNone \<and> dget item ''episode'' \<noteq> PNone
                   then PStr ''episode'' else dget item ''type'')
        \<and> map_of e ''imdb_id'' = Some (dget item ''imdb_id'')) its out"
    by (simp add: list_all2_conv_all_nth)
  with f show ?thesis by blast
qed

lemma filter_raising_Inr:
  "filter_raising test xs = Inr ys \<Longrightarrow> ys = filter (\<lambda>x. test x = Inr True) xs"
  by (induction xs arbitrary: ys) (auto split: sum.splits)

lemma py_ge_True: "(py_ge v c = Inr True) = (\<exists>x. num_of v = Some x \<and> c \<le> x)"
  by (auto simp: py_ge_def split: option.splits)

lemma is_watched_True:
  "(is_watched item = Inr True) =
     (truthy (dget_default item ''is_watched'' (PBool False))
      \<or> (\<exists>x. num_of (dget_default item ''progress'' (PInt 0)) = Some x \<and> 90 < x))"
  by (auto simp: is_watched_def py_gt_def split: option.splits)

lemma convert_list_items:
  "convert_to_trakt_format clock aw mu n its = Inr (ts, n') \<Longrightarrow>
     list_all2 (\<lambda>item t. \<exists>k k'. convert_item clock aw mu k item = Inr (t, k')) its ts"
  by (induction its arbitrary: n ts) (auto split: sum.splits prod.splits)

lemma format_list_items:
  "format_for_trakt_import ts = Inr out \<Longrightarrow> list_all2 (\<lambda>t e. format_entry t = Inr e) ts out"
  by (induction ts arbitrary: out) (auto split: sum.splits)


text \<open>
  Claim C1. For every list of raw entities and every setting of the two options, the
  transformer treats an entity as watched exactly when its watched marker is truthy or
  its progress is a number above 90. A watched entity's entry carries \<^verbatim>\<open>watched_at\<close>:
  the literal \<^verbatim>\<open>unknown\<close> when \<^verbatim>\<open>mark_unknown_dates\<close> is set, otherwise one of the
  readings of \<^verbatim>\<open>datetime.now().isoformat()\<close> taken during the conversion, followed by
  \<^verbatim>\<open>Z\<close>. An entity that is not watched has no \<^verbatim>\<open>watched_at\<close> key. This holds for the
  entries of \<^verbatim>\<open>convert_to_trakt_format\<close> and for the entries \<^verbatim>\<open>format_for_trakt_import\<close>
  makes of them, which it always does without raising.
\<close>

theorem watched_at_rule:
  assumes "convert_to_trakt_format clock aw mu n its = Inr (ts, n')"
  shows "list_all2 (\<lambda>item t.
        if truthy (dget_default item ''is_watched'' (PBool False))
           \<or> (\<exists>x. num_of (dget_default item ''progress'' (PInt 0)) = Some x \<and> 90 < x)
        then (if mu then map_of t ''watched_at'' = Some (PStr ''unknown'')
              else (\<exists>k. n \<le> k \<and> k < n' \<and> map_of t ''watched_at'' = Some (PStr (clock k @ ''Z''))))
        else map_of t ''watched_at'' = None) its ts
    \<and> (\<exists>out. format_for_trakt_import ts = Inr out \<and> list_all2 (\<lambda>item e.
        if truthy (dget_default item ''is_watched'' (PBool False))
           \<or> (\<exists>x. num_of (dget_default item ''progress'' (PInt 0)) = Some x \<and> 90 < x)
        then (if mu then map_of e ''watched_at'' = Some (PStr ''unknown'')
              else (\<exists>k. n \<le> k \<and> k < n' \<and> map_of e ''watched_at'' = Some (PStr (clock k @ ''Z''))))
        else map_of e ''watched_at'' = None) its out)"
proof -
  have step: "\<And>item e. \<exists>w k. is_watched item = Inr w \<and> n \<le> k \<and> (w \<and> \<not> mu \<longrightarrow> k < n')
        \<and> map_of e ''watched_at'' =
             (if w then Some (PStr (if mu then ''unknown'' else clock k @ ''Z'')) else None)
        \<and> map_of e ''type'' =
             Some (if dget item ''season'' \<noteq> PNone \<and> dget item ''episode'' \<noteq> PNone
                   then PStr ''episode'' else dget item ''type'')
        \<and> map_of e ''imdb_id'' = Some (dget item ''imdb_id'')
     \<Longrightarrow> (\<lambda>item e.
        if truthy (dget_default item ''is_watched'' (PBool False))
           \<or> (\<exists>x. num_of (dget_default item ''progress'' (PInt 0)) = Some x \<and> 90 < x)
        then (if mu then map_of e ''watched_at'' = Some (PStr ''unknown'')
              else (\<exists>k. n \<le> k \<and> k < n' \<and> map_of e ''watched_at'' = Some (PStr (clock k @ ''Z''))))
        else map_of e ''watched_at'' = None) item e"
  proof -
    fix item e
    assume "\<exists>w k. is_watched item = Inr w \<and> n \<le> k \<and> (w \<and> \<not> mu \<longrightarrow> k < n')
        \<and> map_of e ''watched_at'' =
             (if w then Some (PStr (if mu then ''unknown'' else clock k @ ''Z'')) else None)
        \<and> map_of e ''type'' =
             Some (if dget item ''season'' \<noteq> PNone \<and> dget item ''episode'' \<noteq> PNone
                   then PStr ''episode'' else dget item ''type'')
        \<and> map_of e ''imdb_id'' = Some (dget item ''imdb_id'')"
    then obtain w k where w: "is_watched item = Inr w" and k: "n \<le> k" "w \<and> \<not> mu \<longrightarrow> k < n'"
      and wa: "map_of e ''watched_at'' =
             (if w then Some (PStr (if mu then ''unknown'' else clock k @ ''Z'')) else None)"
      by blast
    from is_watched_eq[OF w] have weq: "w = (truthy (dget_default item ''is_watched'' (PBool False))
          \<or> (\<exists>x. num_of (dget_default item ''progress'' (PInt 0)) = Some x \<and> 90 < x))" .
    show "(\<lambda>item e.
        if truthy (dget_default item ''is_watched'' (PBool False))
           \<or> (\<exists>x. num_of (dget_default item ''progress'' (PInt 0)) = Some x \<and> 90 < x)
        then (if mu then map_of e ''watched_at'' = Some (PStr ''unknown'')
              else (\<exists>k. n \<le> k \<and> k < n' \<and> map_of e ''watched_at'' = Some (PStr (clock k @ ''Z''))))
        else map_of e ''watched_at'' = None) item e"
    proof (cases w)
      case True
      with weq k wa show ?thesis by (cases mu) auto
    next
      case False
      with weq wa show ?thesis by simp
    qed
  qed
  from convert_rel[OF assms] have "list_all2 (\<lambda>item t.
        if truthy (dget_default item ''is_watched'' (PBool False))
           \<or> (\<exists>x. num_of (dget_default item ''progress'' (PInt 0)) = Some x \<and> 90 < x)
        then (if mu then map_of t ''watched_at'' = Some (PStr ''unknown'')
              else (\<exists>k. n \<le> k \<and> k < n' \<and> map_of t ''watched_at'' = Some (PStr (clock k @ ''Z''))))
        else map_of t ''watched_at'' = None) its ts"
    using step by (blast intro: list_all2_mono)
  moreover from convert_format_rel[OF assms] have
    "\<exists>out. format_for_trakt_import ts = Inr out \<and> list_all2 (\<lambda>item e.
        if truthy (dget_default item ''is_watched'' (PBool False))
           \<or> (\<exists>x. num_of (dget_default item ''progress'' (PInt 0)) = Some x \<and> 90 < x)
        then (if mu then map_of e ''watched_at'' = Some (PStr ''unknown'')
              else (\<exists>k. n \<le> k \<and> k < n' \<and> map_of e ''watched_at'' = Some (PStr (clock k @ ''Z''))))
        else map_of e ''watched_at'' = None) its out"
    using step by (blast intro: list_all2_mono)
  ultimately show ?thesis by blast
qed

text \<open>
  Claim C2. For every raw entity the entry's \<^verbatim>\<open>type\<close> is \<^verbatim>\<open>episode\<close> when both
  \<^verbatim>\<open>season\<close> and \<^verbatim>\<open>episode\<close> are present (not \<^verbatim>\<open>None\<close>), and the entity's own
  \<^verbatim>\<open>type\<close> otherwise; so for an entity classified as movie or show the entry is an
  episode exactly when both are present.
\<close>

theorem episode_kind_rule:
  assumes "convert_to_trakt_format clock aw mu n its = Inr (ts, n')"
  shows "list_all2 (\<lambda>item t.
        map_of t ''type'' =
          Some (if dget item ''season'' \<noteq> PNone \<and> dget item ''episode'' \<noteq> PNone
                then PStr ''episode'' else dget item ''type'')) its ts
    \<and> (\<exists>out. format_for_trakt_import ts = Inr out \<and> list_all2 (\<lambda>item e.
        map_of e ''type'' =
          Some (if dget item ''season'' \<noteq> PNone \<and> dget item ''episode'' \<noteq> PNone
                then PStr ''episode'' else dget item ''type'')) its out)"
proof -
  from convert_rel[OF assms] have "list_all2 (\<lambda>item t.
        map_of t ''type'' =
          Some (if dget item ''season'' \<noteq> PNone \<and> dget item ''episode'' \<noteq> PNone
                then PStr ''episode'' else dget item ''type'')) its ts"
    by (blast intro: list_all2_mono)
  moreover from convert_format_rel[OF assms] have
    "\<exists>out. format_for_trakt_import ts = Inr out \<and> list_all2 (\<lambda>item e.
        map_of e ''type'' =
          Some (if dget item ''season'' \<noteq> PNone \<and> dget item ''episode'' \<noteq> PNone
                then PStr ''episode'' else dget item ''type'')) its out"
    by (blast intro: list_all2_mono)
  ultimately show ?thesis by blast
qed


theorem watched_at_rule_witness:
  "convert_to_trakt_format (\<lambda>k. ''2024-05-01T12:00:00'') False False 0
       [[(''imdb_id'', PStr ''tt1''), (''title'', PStr ''A''), (''type'', PStr ''movie''),
         (''is_watched'', PBool True), (''progress'', PInt 0)],
        [(''imdb_id'', PStr ''tt2''), (''title'', PStr []), (''type'', PStr ''show''),
         (''is_watched'', PBool False), (''progress'', PFloat 95.5),
         (''season'', PInt 2), (''episode'', PInt 5)],
        [(''imdb_id'', PStr ''tt3''), (''title'', PStr []), (''type'', PStr ''show''),
         (''is_watched'', PBool False), (''progress'', PFloat 30)]]
     = Inr ([[(''imdb_id'', PStr ''tt1''), (''type'', PStr ''movie''), (''title'', PStr ''A''),
         (''watched_at'', PStr ''2024-05-01T12:00:00Z'')],
        [(''imdb_id'', PStr ''tt2''), (''type'', PStr ''episode''), (''season'', PInt 2),
         (''episode'', PInt 5), (''watched_at'', PStr ''2024-05-01T12:00:00Z''),
         (''_progress'', PFloat 95.5)],
        [(''imdb_id'', PStr ''tt3''), (''type'', PStr ''show''), (''_progress'', PFloat 30)]], 2)
   \<and> list_all2 (\<lambda>item t.
        if truthy (dget_default item ''is_watched'' (PBool False))
           \<or> (\<exists>x. num_of (dget_default item ''progress'' (PInt 0)) = Some x \<and> 90 < x)
        then (if False then map_of t ''watched_at'' = Some (PStr ''unknown'')
              else (\<exists>k::nat. 0 \<le> k \<and> k < 2 \<and> map_of t ''watched_at'' = Some (PStr (''2024-05-01T12:00:00'' @ ''Z''))))
        else map_of t ''watched_at'' = None)
       [[(''imdb_id'', PStr ''tt1''), (''title'', PStr ''A''), (''type'', PStr ''movie''),
         (''is_watched'', PBool True), (''progress'', PInt 0)],
        [(''imdb_id'', PStr ''tt2''), (''title'', PStr []), (''type'', PStr ''show''),
         (''is_watched'', PBool False), (''progress'', PFloat 95.5),
         (''season'', PInt 2), (''episode'', PInt 5)],
        [(''imdb_id'', PStr ''tt3''), (''title'', PStr []), (''type'', PStr ''show''),
         (''is_watched'', PBool False), (''progress'', PFloat 30)]]
       [[(''imdb_id'', PStr ''tt1''), (''type'', PStr ''movie''), (''title'', PStr ''A''),
         (''watched_at'', PStr ''2024-05-01T12:00:00Z'')],
        [(''imdb_id'', PStr ''tt2''), (''type'', PStr ''episode''), (''season'', PInt 2),
         (''episode'', PInt 5), (''watched_at'', PStr ''2024-05-01T12:00:00Z''),
         (''_progress'', PFloat 95.5)],
        [(''imdb_id'', PStr ''tt3''), (''type'', PStr ''show''), (''_progress'', PFloat 30)]]
   \<and> (\<exists>out. format_for_trakt_import
       [[(''imdb_id'', PStr ''tt1''), (''type'', PStr ''movie''), (''title'', PStr ''A''),
         (''watched_at'', PStr ''2024-05-01T12:00:00Z'')],
        [(''imdb_id'', PStr ''tt2''), (''type'', PStr ''episode''), (''season'', PInt 2),
         (''episode'', PInt 5), (''watched_at'', PStr ''2024-05-01T12:00:00Z''),
         (''_progress'', PFloat 95.5)],
        [(''imdb_id'', PStr ''tt3''), (''type'', PStr ''show''), (''_progress'', PFloat 30)]] = Inr out
     \<and> list_all2 (\<lambda>item e.
        if truthy (dget_default item ''is_watched'' (PBool False))
           \<or> (\<exists>x. num_of (dget_default item ''progress'' (PInt 0)) = Some x \<and> 90 < x)
        then (if False then map_of e ''watched_at'' = Some (PStr ''unknown'')
              else (\<exists>k::nat. 0 \<le> k \<and> k < 2 \<and> map_of e ''watched_at'' = Some (PStr (''2024-05-01T12:00:00'' @ ''Z''))))
        else map_of e ''watched_at'' = None)
       [[(''imdb_id'', PStr ''tt1''), (''title'', PStr ''A''), (''type'', PStr ''movie''),
         (''is_watched'', PBool True), (''progress'', PInt 0)],
        [(''imdb_id'', PStr ''tt2''), (''title'', PStr []), (''type'', PStr ''show''),
         (''is_watched'', PBool False), (''progress'', PFloat 95.5),
         (''season'', PInt 2), (''episode'', PInt 5)],
        [(''imdb_id'', PStr ''tt3''), (''title'', PStr []), (''type'', PStr ''show''),
         (''is_watched'', PBool False), (''progress'', PFloat 30)]] out)"
proof -
  have c: "convert_to_trakt_format (\<lambda>k. ''2024-05-01T12:00:00'') False False 0
       [[(''imdb_id'', PStr ''tt1''), (''title'', PStr ''A''), (''type'', PStr ''movie''),
         (''is_watched'', PBool True), (''progress'', PInt 0)],
        [(''imdb_id'', PStr ''tt2''), (''title'', PStr []), (''type'', PStr ''show''),
         (''is_watched'', PBool False), (''progress'', PFloat 95.5),
         (''season'', PInt 2), (''episode'', PInt 5)],
        [(''imdb_id'', PStr ''tt3''), (''title'', PStr []), (''type'', PStr ''show''),
         (''is_watched'', PBool False), (''progress'', PFloat 30)]]
     = Inr ([[(''imdb_id'', PStr ''tt1''), (''type'', PStr ''movie''), (''title'', PStr ''A''),
         (''watched_at'', PStr ''2024-05-01T12:00:00Z'')],
        [(''imdb_id'', PStr ''tt2''), (''type'', PStr ''episode''), (''season'', PInt 2),
         (''episode'', PInt 5), (''watched_at'', PStr ''2024-05-01T12:00:00Z''),
         (''_progress'', PFloat 95.5)],
        [(''imdb_id'', PStr ''tt3''), (''type'', PStr ''show''), (''_progress'', PFloat 30)]], 2)"
    by (simp add: convert_item_def is_watched_def py_gt_def dget_def dget_default_def copy_if_truthy_def Let_def)
  show ?thesis
    by (rule conjI[OF c watched_at_rule[OF c]])
qed

theorem episode_kind_rule_witness:
  "convert_to_trakt_format (\<lambda>k. ''2024-05-01T12:00:00'') False True 0
       [[(''imdb_id'', PStr ''tt1''), (''title'', PStr ''A''), (''type'', PStr ''movie''),
         (''is_watched'', PBool True), (''progress'', PInt 0)],
        [(''imdb_id'', PStr ''tt2''), (''title'', PStr []), (''type'', PStr ''show''),
         (''is_watched'', PBool False), (''progress'', PFloat 95.5),
         (''season'', PInt 2), (''episode'', PInt 5)],
        [(''imdb_id'', PStr ''tt3''), (''title'', PStr []), (''type'', PStr ''show''),
         (''is_watched'', PBool False), (''progress'', PFloat 30)]]
     = Inr ([[(''imdb_id'', PStr ''tt1''), (''type'', PStr ''movie''), (''title'', PStr ''A''),
         (''watched_at'', PStr ''unknown'')],
        [(''imdb_id'', PStr ''tt2''), (''type'', PStr ''episode''), (''season'', PInt 2),
         (''episode'', PInt 5), (''watched_at'', PStr ''unknown''),
         (''_progress'', PFloat 95.5)],
        [(''imdb_id'', PStr ''tt3''), (''type'', PStr ''show''), (''_progress'', PFloat 30)]], 0)
   \<and> list_all2 (\<lambda>item t.
        map_of t ''type'' =
          Some (if dget item ''season'' \<noteq> PNone \<and> dget item ''episode'' \<noteq> PNone
                then PStr ''episode'' else dget item ''type''))
       [[(''imdb_id'', PStr ''tt1''), (''title'', PStr ''A''), (''type'', PStr ''movie''),
         (''is_watched'', PBool True), (''progress'', PInt 0)],
        [(''imdb_id'', PStr ''tt2''), (''title'', PStr []), (''type'', PStr ''show''),
         (''is_watched'', PBool False), (''progress'', PFloat 95.5),
         (''season'', PInt 2), (''episode'', PInt 5)],
        [(''imdb_id'', PStr ''tt3''), (''title'', PStr []), (''type'', PStr ''show''),
         (''is_watched'', PBool False), (''progress'', PFloat 30)]]
       [[(''imdb_id'', PStr ''tt1''), (''type'', PStr ''movie''), (''title'', PStr ''A''),
         (''watched_at'', PStr ''unknown'')],
        [(''imdb_id'', PStr ''tt2''), (''type'', PStr ''episode''), (''season'', PInt 2),
         (''episode'', PInt 5), (''watched_at'', PStr ''unknown''),
         (''_progress'', PFloat 95.5)],
        [(''imdb_id'', PStr ''tt3''), (''type'', PStr ''show''), (''_progress'', PFloat 30)]]
   \<and> (\<exists>out. format_for_trakt_import
       [[(''imdb_id'', PStr ''tt1''), (''type'', PStr ''movie''), (''title'', PStr ''A''),
         (''watched_at'', PStr ''unknown'')],
        [(''imdb_id'', PStr ''tt2''), (''type'', PStr ''episode''), (''season'', PInt 2),
         (''episode'', PInt 5), (''watched_at'', PStr ''unknown''),
         (''_progress'', PFloat 95.5)],
        [(''imdb_id'', PStr ''tt3''), (''type'', PStr ''show''), (''_progress'', PFloat 30)]] = Inr out
     \<and> list_all2 (\<lambda>item e.
        map_of e ''type'' =
          Some (if dget item ''season'' \<noteq> PNone \<and> dget item ''episode'' \<noteq> PNone
                then PStr ''episode'' else dget item ''type''))
       [[(''imdb_id'', PStr ''tt1''), (''title'', PStr ''A''), (''type'', PStr ''movie''),
         (''is_watched'', PBool True), (''progress'', PInt 0)],
        [(''imdb_id'', PStr ''tt2''), (''title'', PStr []), (''type'', PStr ''show''),
         (''is_watched'', PBool False), (''progress'', PFloat 95.5),
         (''season'', PInt 2), (''episode'', PInt 5)],
        [(''imdb_id'', PStr ''tt3''), (''title'', PStr []), (''type'', PStr ''show''),
         (''is_watched'', PBool False), (''progress'', PFloat 30)]] out)"
proof -
  have c: "convert_to_trakt_format (\<lambda>k. ''2024-05-01T12:00:00'') False True 0
       [[(''imdb_id'', PStr ''tt1''), (''title'', PStr ''A''), (''type'', PStr ''movie''),
         (''is_watched'', PBool True), (''progress'', PInt 0)],
        [(''imdb_id'', PStr ''tt2''), (''title'', PStr []), (''type'', PStr ''show''),
         (''is_watched'', PBool False), (''progress'', PFloat 95.5),
         (''season'', PInt 2), (''episode'', PInt 5)],
        [(''imdb_id'', PStr ''tt3''), (''title'', PStr []), (''type'', PStr ''show''),
         (''is_watched'', PBool False), (''progress'', PFloat 30)]]
     = Inr ([[(''imdb_id'', PStr ''tt1''), (''type'', PStr ''movie''), (''title'', PStr ''A''),
         (''watched_at'', PStr ''unknown'')],
        [(''imdb_id'', PStr ''tt2''), (''type'', PStr ''episode''), (''season'', PInt 2),
         (''episode'', PInt 5), (''watched_at'', PStr ''unknown''),
         (''_progress'', PFloat 95.5)],
        [(''imdb_id'', PStr ''tt3''), (''type'', PStr ''show''), (''_progress'', PFloat 30)]], 0)"
    by (simp add: convert_item_def is_watched_def py_gt_def dget_def dget_default_def copy_if_truthy_def Let_def)
  show ?thesis
    by (rule conjI[OF c episode_kind_rule[OF c]])
qed

lemma list_all2_compose:
  "list_all2 P xs ys \<Longrightarrow> list_all2 Q ys zs \<Longrightarrow> list_all2 (\<lambda>x z. \<exists>y. P x y \<and> Q y z) xs zs"
proof (induction xs arbitrary: ys zs)
  case Nil
  then show ?case by simp
next
  case (Cons x xs)
  then show ?case by (force simp: list_all2_Cons1)
qed

text \<open>
  Claim C5. The filters run before the conversion and remove entities entirely: the
  output of a successful run has one entry per entity that passes the filters, in
  order, each made from that entity by \<^verbatim>\<open>convert_item\<close> and \<^verbatim>\<open>format_entry\<close>; an entity
  that fails a filter has no entry. With a positive \<^verbatim>\<open>min_progress\<close> an entity passes
  when its progress is at least that (so progress 30 fails \<^verbatim>\<open>min_progress\<close> 50); with
  \<^verbatim>\<open>watched_only\<close> it passes when the watched marker is set or its progress exceeds 90.
\<close>

theorem filtering_before_conversion:
  assumes p: "parse_stremio_html tokenize unquote html = Inr its"
      and r: "run_main tokenize unquote clock a html = Success out diags"
  shows "list_all2 (\<lambda>item e. \<exists>k t k'. convert_item clock (\<not> no_watchlist a) (\<not> use_current_date a) k item = Inr (t, k') \<and> format_entry t = Inr e)
           (filter (\<lambda>item.
               (0 < min_progress a \<longrightarrow> (\<exists>x. num_of (dget_default item ''progress'' (PInt 0)) = Some x \<and> min_progress a \<le> x))
             \<and> (watched_only a \<longrightarrow> (truthy (dget_default item ''is_watched'' (PBool False))
                     \<or> (\<exists>x. num_of (dget_default item ''progress'' (PInt 0)) = Some x \<and> 90 < x)))) its) out"
proof -
  from r p obtain its1 its2 ts n' where
    f1: "filter_min_progress (min_progress a) its = Inr its1"
    and f2: "filter_watched_only (watched_only a) its1 = Inr its2"
    and c: "convert_to_trakt_format clock (\<not> no_watchlist a) (\<not> use_current_date a) 0 its2 = Inr (ts, n')"
    and f: "format_for_trakt_import ts = Inr out"
    by (auto simp: run_main_def split: if_splits sum.splits prod.splits)
  have i1: "its1 = filter (\<lambda>item. 0 < min_progress a \<longrightarrow> (\<exists>x. num_of (dget_default item ''progress'' (PInt 0)) = Some x \<and> min_progress a \<le> x)) its"
    using f1 by (auto simp: filter_min_progress_def py_ge_True dest: filter_raising_Inr split: if_splits)
  have i2: "its2 = filter (\<lambda>item. watched_only a \<longrightarrow> (truthy (dget_default item ''is_watched'' (PBool False))
                     \<or> (\<exists>x. num_of (dget_default item ''progress'' (PInt 0)) = Some x \<and> 90 < x))) its1"
    using f2 by (auto simp: filter_watched_only_def is_watched_True dest: filter_raising_Inr split: if_splits)
  have "list_all2 (\<lambda>item e. \<exists>k t k'. convert_item clock (\<not> no_watchlist a) (\<not> use_current_date a) k item = Inr (t, k') \<and> format_entry t = Inr e) its2 out"
    using list_all2_compose[OF convert_list_items[OF c] format_list_items[OF f]]
    by (rule list_all2_mono) blast
  then show ?thesis
    unfolding i2 i1 by (simp add: conj_commute)
qed

theorem filtering_before_conversion_witness:
  "parse_stremio_html (\<lambda>_. [StartTag ''a'' [(''class'', Some ''meta-item-container''), (''href'', Some ''#/detail/movie/tt1'')],
      StartTag ''div'' [(''class'', Some ''progress-bar''), (''style'', Some ''width: 30%'')],
      EndTag ''div'', EndTag ''a'',
      StartTag ''a'' [(''class'', Some ''meta-item-container''), (''href'', Some ''#/detail/movie/tt2'')],
      StartTag ''div'' [(''class'', Some ''progress-bar''), (''style'', Some ''width: 60%'')],
      EndTag ''div'', EndTag ''a'',
      StartTag ''a'' [(''class'', Some ''meta-item-container''), (''href'', Some ''#/detail/series/tt3:2:5'')],
      StartTag ''div'' [(''class'', Some ''progress-bar''), (''style'', Some ''width: 95.5%'')],
      EndTag ''div'', EndTag ''a'']) id ''<html>''
     = Inr [[(''imdb_id'', PStr ''tt1''), (''title'', PStr []), (''type'', PStr ''movie''),
       (''href'', PStr ''#/detail/movie/tt1''), (''is_watched'', PBool False),
       (''progress'', PFloat 30)],
      [(''imdb_id'', PStr ''tt2''), (''title'', PStr []), (''type'', PStr ''movie''),
       (''href'', PStr ''#/detail/movie/tt2''), (''is_watched'', PBool False),
       (''progress'', PFloat 60)],
      [(''imdb_id'', PStr ''tt3''), (''title'', PStr []), (''type'', PStr ''show''),
       (''href'', PStr ''#/detail/series/tt3:2:5''), (''is_watched'', PBool False),
       (''progress'', PFloat 95.5), (''season'', PInt 2), (''episode'', PInt 5)]]
   \<and> run_main (\<lambda>_. [StartTag ''a'' [(''class'', Some ''meta-item-container''), (''href'', Some ''#/detail/movie/tt1'')],
      StartTag ''div'' [(''class'', Some ''progress-bar''), (''style'', Some ''width: 30%'')],
      EndTag ''div'', EndTag ''a'',
      StartTag ''a'' [(''class'', Some ''meta-item-container''), (''href'', Some ''#/detail/movie/tt2'')],
      StartTag ''div'' [(''class'', Some ''progress-bar''), (''style'', Some ''width: 60%'')],
      EndTag ''div'', EndTag ''a'',
      StartTag ''a'' [(''class'', Some ''meta-item-container''), (''href'', Some ''#/detail/series/tt3:2:5'')],
      StartTag ''div'' [(''class'', Some ''progress-bar''), (''style'', Some ''width: 95.5%'')],
      EndTag ''div'', EndTag ''a'']) id (\<lambda>k. ''2024-05-01T12:00:00'')
       \<lparr>no_watchlist = True, use_current_date = False, watched_only = True, min_progress = 50, output_name = None\<rparr> ''<html>''
     = Success [[(''imdb_id'', PStr ''tt3''), (''type'', PStr ''episode''),
       (''watched_at'', PStr ''unknown''), (''season'', PInt 2), (''episode'', PInt 5),
       (''_href'', PStr ''#/detail/series/tt3:2:5''), (''_progress'', PFloat 95.5)]] [Found 3 2 0 1 1, Exported 1]
   \<and> list_all2 (\<lambda>item e. \<exists>k t k'. convert_item (\<lambda>k. ''2024-05-01T12:00:00'') (\<not> no_watchlist \<lparr>no_watchlist = True, use_current_date = False, watched_only = True, min_progress = 50, output_name = None\<rparr>) (\<not> use_current_date \<lparr>no_watchlist = True, use_current_date = False, watched_only = True, min_progress = 50, output_name = None\<rparr>) k item = Inr (t, k') \<and> format_entry t = Inr e)
           (filter (\<lambda>item.
               (0 < min_progress \<lparr>no_watchlist = True, use_current_date = False, watched_only = True, min_progress = 50, output_name = None\<rparr> \<longrightarrow> (\<exists>x. num_of (dget_default item ''progress'' (PInt 0)) = Some x \<and> min_progress \<lparr>no_watchlist = True, use_current_date = False, watched_only = True, min_progress = 50, output_name = None\<rparr> \<le> x))
             \<and> (watched_only \<lparr>no_watchlist = True, use_current_date = False, watched_only = True, min_progress = 50, output_name = None\<rparr> \<longrightarrow> (truthy (dget_default item ''is_watched'' (PBool False))
                     \<or> (\<exists>x. num_of (dget_default item ''progress'' (PInt 0)) = Some x \<and> 90 < x))))
            [[(''imdb_id'', PStr ''tt1''), (''title'', PStr []), (''type'', PStr ''movie''),
       (''href'', PStr ''#/detail/movie/tt1''), (''is_watched'', PBool False),
       (''progress'', PFloat 30)],
      [(''imdb_id'', PStr ''tt2''), (''title'', PStr []), (''type'', PStr ''movie''),
       (''href'', PStr ''#/detail/movie/tt2''), (''is_watched'', PBool False),
       (''progress'', PFloat 60)],
      [(''imdb_id'', PStr ''tt3''), (''title'', PStr []), (''type'', PStr ''show''),
       (''href'', PStr ''#/detail/series/tt3:2:5''), (''is_watched'', PBool False),
       (''progress'', PFloat 95.5), (''season'', PInt 2), (''episode'', PInt 5)]])
           [[(''imdb_id'', PStr ''tt3''), (''type'', PStr ''episode''),
       (''watched_at'', PStr ''unknown''), (''season'', PInt 2), (''episode'', PInt 5),
       (''_href'', PStr ''#/detail/series/tt3:2:5''), (''_progress'', PFloat 95.5)]]"
proof -
  have p: "parse_stremio_html (\<lambda>_. [StartTag ''a'' [(''class'', Some ''meta-item-container''), (''href'', Some ''#/detail/movie/tt1'')],
      StartTag ''div'' [(''class'', Some ''progress-bar''), (''style'', Some ''width: 30%'')],
      EndTag ''div'', EndTag ''a'',
      StartTag ''a'' [(''class'', Some ''meta-item-container''), (''href'', Some ''#/detail/movie/tt2'')],
      StartTag ''div'' [(''class'', Some ''progress-bar''), (''style'', Some ''width: 60%'')],
      EndTag ''div'', EndTag ''a'',
      StartTag ''a'' [(''class'', Some ''meta-item-container''), (''href'', Some ''#/detail/series/tt3:2:5'')],
      StartTag ''div'' [(''class'', Some ''progress-bar''), (''style'', Some ''width: 95.5%'')],
      EndTag ''div'', EndTag ''a'']) id ''<html>''
     = Inr [[(''imdb_id'', PStr ''tt1''), (''title'', PStr []), (''type'', PStr ''movie''),
       (''href'', PStr ''#/detail/movie/tt1''), (''is_watched'', PBool False),
       (''progress'', PFloat 30)],
      [(''imdb_id'', PStr ''tt2''), (''title'', PStr []), (''type'', PStr ''movie''),
       (''href'', PStr ''#/detail/movie/tt2''), (''is_watched'', PBool False),
       (''progress'', PFloat 60)],
      [(''imdb_id'', PStr ''tt3''), (''title'', PStr []), (''type'', PStr ''show''),
       (''href'', PStr ''#/detail/series/tt3:2:5''), (''is_watched'', PBool False),
       (''progress'', PFloat 95.5), (''season'', PInt 2), (''episode'', PInt 5)]]"
    by code_simp
  have r: "run_main (\<lambda>_. [StartTag ''a'' [(''class'', Some ''meta-item-container''), (''href'', Some ''#/detail/movie/tt1'')],
      StartTag ''div'' [(''class'', Some ''progress-bar''), (''style'', Some ''width: 30%'')],
      EndTag ''div'', EndTag ''a'',
      StartTag ''a'' [(''class'', Some ''meta-item-container''), (''href'', Some ''#/detail/movie/tt2'')],
      StartTag ''div'' [(''class'', Some ''progress-bar''), (''style'', Some ''width: 60%'')],
      EndTag ''div'', EndTag ''a'',
      StartTag ''a'' [(''class'', Some ''meta-item-container''), (''href'', Some ''#/detail/series/tt3:2:5'')],
      StartTag ''div'' [(''class'', Some ''progress-bar''), (''style'', Some ''width: 95.5%'')],
      EndTag ''div'', EndTag ''a'']) id (\<lambda>k. ''2024-05-01T12:00:00'')
       \<lparr>no_watchlist = True, use_current_date = False, watched_only = True, min_progress = 50, output_name = None\<rparr> ''<html>''
     = Success [[(''imdb_id'', PStr ''tt3''), (''type'', PStr ''episode''),
       (''watched_at'', PStr ''unknown''), (''season'', PInt 2), (''episode'', PInt 5),
       (''_href'', PStr ''#/detail/series/tt3:2:5''), (''_progress'', PFloat 95.5)]] [Found 3 2 0 1 1, Exported 1]"
    by code_simp
  show ?thesis
    by (rule conjI[OF p conjI[OF r filtering_before_conversion[OF p r]]])
qed


section \<open>Properties of the scanner\<close>

lemma update_not_Nil: "AList.update k v d \<noteq> []"
  by (cases d) auto

lemma item_frame_refl: "item_frame K d d"
  by (simp add: item_frame_def)

lemma item_frame_update: "k \<in> K \<Longrightarrow> item_frame K d (AList.update k v d)"
  by (auto simp: item_frame_def update_not_Nil distinct_update update_conv')

lemma item_frame_trans:
  "item_frame K d d' \<Longrightarrow> item_frame K' d' d'' \<Longrightarrow> item_frame (K \<union> K') d d''"
  by (auto simp: item_frame_def)

lemma item_frame_mono: "item_frame K d d' \<Longrightarrow> K \<subseteq> K' \<Longrightarrow> item_frame K' d d'"
  by (auto simp: item_frame_def)

lemma state_frame_refl: "state_frame K st st"
  by (simp add: state_frame_def option.rel_refl item_frame_refl)



lemma on_item_frame:
  assumes "on_item f st = Inr st'"
    and "\<And>d d'. d \<noteq> [] \<Longrightarrow> f d = Inr d' \<Longrightarrow> item_frame K d d'"
  shows "state_frame K st st' \<and> capture_text st' = capture_text st
         \<and> current_text_field st' = current_text_field st"
  using assms
  by (auto simp: on_item_def state_frame_def item_frame_refl option.rel_refl
           split: option.splits if_splits sum.splits)

lemma set_if_unset_frame: "set_if_unset k v d = Inr d' \<Longrightarrow> item_frame {k} d d'"
  by (auto simp: set_if_unset_def item_frame_refl item_frame_update split: sum.splits if_splits)

lemma watched_step_frame:
  "watched_step tag ad st = Inr st' \<Longrightarrow>
     state_frame {''is_watched''} st st' \<and> capture_text st' = capture_text st
       \<and> current_text_field st' = current_text_field st"
  unfolding watched_step_def
  by (erule on_item_frame)
     (auto simp: item_frame_refl item_frame_update split: if_splits sum.splits)

lemma progress_step_frame:
  "progress_step tag ad st = Inr st' \<Longrightarrow>
     state_frame {''progress''} st st' \<and> capture_text st' = capture_text st
       \<and> current_text_field st' = current_text_field st"
  unfolding progress_step_def
  by (erule on_item_frame)
     (auto simp: item_frame_refl item_frame_update split: if_splits sum.splits option.splits)

lemma poster_step_frame:
  "poster_step u tag ad st = Inr st' \<Longrightarrow>
     state_frame {''poster_url'', ''poster_shape''} st st' \<and> capture_text st' = capture_text st
       \<and> current_text_field st' = current_text_field st"
  unfolding poster_step_def
  by (erule on_item_frame)
     (auto simp: Let_def item_frame_def update_not_Nil distinct_update update_conv'
           split: if_splits sum.splits option.splits)

lemma img_step_frame:
  "img_step u tag ad st = Inr st' \<Longrightarrow>
     state_frame {''poster_url'', ''title''} st st' \<and> capture_text st' = capture_text st
       \<and> current_text_field st' = current_text_field st"
  unfolding img_step_def
  apply (erule on_item_frame)
  apply (auto split: if_splits sum.splits option.splits
      dest!: set_if_unset_frame)
     apply (auto simp: item_frame_def)
  done

lemma inline_style_step_frame:
  "inline_style_step u tag ad st = Inr st' \<Longrightarrow>
     state_frame {''poster_url''} st st' \<and> capture_text st' = capture_text st
       \<and> current_text_field st' = current_text_field st"
  unfolding inline_style_step_def
  by (erule on_item_frame)
     (auto simp: item_frame_refl item_frame_update split: if_splits sum.splits option.splits)

lemma capture_step_frame:
  "capture_step m f tag ad st = Inr st' \<Longrightarrow> state_frame {} st st'"
  by (auto simp: capture_step_def state_frame_def option.rel_refl item_frame_refl
      split: if_splits sum.splits)

lemma map_of_finalize:
  "distinct (map fst d) \<Longrightarrow>
     map_of (finalize d) k = (case map_of d k of Some PNone \<Rightarrow> None | x \<Rightarrow> x)"
proof (induction d)
  case Nil
  then show ?case by (simp add: finalize_def)
next
  case (Cons p d)
  obtain k' v where p: "p = (k', v)" by (cases p)
  from Cons.prems p have nk: "map_of d k' = None"
    by (simp add: map_of_eq_None_iff)
  from Cons p nk show ?case
    by (auto simp: finalize_def split: option.splits pyval.splits)
qed

lemma finalize_no_None: "list_all (\<lambda>(k, v). v \<noteq> PNone) (finalize d)"
  by (simp add: finalize_def list_all_iff)

lemma finalize_ok: "item_ok d \<Longrightarrow> final_ok (finalize d)"
  unfolding item_ok_def final_ok_def
  by (auto simp: finalize_no_None map_of_finalize)

lemma item_frame_ok:
  "item_frame K d d' \<Longrightarrow> item_ok d \<Longrightarrow> K \<inter> {''progress'', ''season'', ''episode''} = {}
     \<Longrightarrow> item_ok d'"
  unfolding item_frame_def item_ok_def by auto

lemma state_frame_ok:
  assumes "state_frame K st st'" and "state_ok st"
    and "K \<inter> {''progress'', ''season'', ''episode''} = {}"
  shows "state_ok st'"
  using assms
  by (cases "current_item st"; cases "current_item st'")
     (auto simp: state_frame_def state_ok_def intro: item_frame_ok)

lemma nat_of_digits_nonneg: "0 \<le> int (nat_of_digits s)"
  by simp

lemma py_int_nonneg: "py_int s = Inr i \<Longrightarrow> 0 \<le> i"
  by (auto simp: py_int_def split: if_splits)

lemma py_float_nonneg: "py_float s = Inr r \<Longrightarrow> 0 \<le> r"
  by (auto simp: py_float_def Let_def split: if_splits)

lemma on_item_ok:
  assumes "on_item f st = Inr st'" and "state_ok st"
    and "\<And>d d'. d \<noteq> [] \<Longrightarrow> item_ok d \<Longrightarrow> f d = Inr d' \<Longrightarrow> item_ok d'"
  shows "state_ok st'"
proof (cases "current_item st")
  case None
  with assms(1,2) show ?thesis by (simp add: on_item_def)
next
  case (Some d)
  show ?thesis
  proof (cases "d = []")
    case True
    with Some assms(1,2) show ?thesis by (simp add: on_item_def)
  next
    case False
    with Some assms(1) obtain d' where d': "f d = Inr d'" and st': "st' = st\<lparr>current_item := Some d'\<rparr>"
      by (auto simp: on_item_def split: sum.splits)
    from assms(2) Some have "item_ok d" by (simp add: state_ok_def)
    from assms(3)[OF False this d'] have "item_ok d'" .
    with st' assms(2) show ?thesis by (simp add: state_ok_def)
  qed
qed

lemma item_ok_progress:
  "item_ok d \<Longrightarrow> 0 \<le> r \<Longrightarrow> item_ok (AList.update ''progress'' (PFloat r) d)"
  by (auto simp: item_ok_def distinct_update update_conv' simp del: map_of_eq_Some_iff)

lemma progress_step_ok:
  assumes "progress_step tag ad st = Inr st'" and "state_ok st"
  shows "state_ok st'"
  using assms(1) unfolding progress_step_def
proof (rule on_item_ok[OF _ assms(2)])
  fix d d'
  assume ok: "item_ok d"
    and f: "(if tag = ''div'' \<and> has_key ad ''class'' then
         (case attr_get ad ''class'' of None \<Rightarrow> Inl TypeError
          | Some classes \<Rightarrow>
            if contains ''progress-bar'' classes \<or> contains ''progressBar'' (lower classes) then
              (case attr_get ad ''style'' of None \<Rightarrow> Inl TypeError
               | Some style \<Rightarrow>
                 (case search width_at style of None \<Rightarrow> Inr d
                  | Some g \<Rightarrow>
                    (case py_float g of Inl e \<Rightarrow> Inl e
                     | Inr r \<Rightarrow> Inr (AList.update ''progress'' (PFloat r) d))))
            else Inr d)
       else Inr d) = Inr d'"
  from f have "d' = d \<or> (\<exists>g r. py_float g = Inr r \<and> d' = AList.update ''progress'' (PFloat r) d)"
    by (auto split: if_splits option.splits sum.splits)
  with ok show "item_ok d'"
    by (auto intro: item_ok_progress dest: py_float_nonneg)
qed

lemma new_item_ok: "item_ok (new_item imdb_id title media_type href)"
  by (simp add: item_ok_def new_item_def)

lemma item_ok_episode:
  "item_ok d \<Longrightarrow> 0 \<le> s \<Longrightarrow> 0 \<le> p \<Longrightarrow>
     item_ok (AList.update ''episode'' (PInt p) (AList.update ''season'' (PInt s) d))"
  by (auto simp: item_ok_def distinct_update update_conv' simp del: map_of_eq_Some_iff)

lemma with_episode_ok: "item_ok d \<Longrightarrow> with_episode href d = Inr d' \<Longrightarrow> item_ok d'"
  by (auto simp: with_episode_def intro: item_ok_episode dest: py_int_nonneg
           split: option.splits sum.splits prod.splits)

lemma copy_data_attrs_frame: "item_frame {k. startswith k ''data-''} d (copy_data_attrs ad d)"
  unfolding copy_data_attrs_def
proof (induction ad arbitrary: d)
  case Nil
  then show ?case by (simp add: item_frame_refl)
next
  case (Cons a ad)
  obtain k v where a: "a = (k, v)" by (cases a)
  show ?case
  proof (cases "startswith k ''data-''")
    case True
    have "item_frame {k. startswith k ''data-''} d (AList.update k (of_attr v) d)"
      using True by (simp add: item_frame_update)
    from item_frame_trans[OF this Cons.IH] show ?thesis using a True by simp
  next
    case False
    with Cons.IH a show ?thesis by simp
  qed
qed

lemma meta_item_step_cases:
  assumes "meta_item_step tag ad st = Inr st'"
  obtains (unchanged) "st' = st"
  | (no_id) "tag = ''a''" and "st' = st\<lparr>in_meta_item := True\<rparr>"
  | (fresh) classes href media_type imdb_id d where
      "tag = ''a''" and "has_key ad ''class''" and "attr_get ad ''class'' = Some classes"
      and "contains ''meta-item-container'' classes" and "attr_get ad ''href'' = Some href"
      and "search imdb_at href = Some (media_type, imdb_id)"
      and "with_episode href (new_item imdb_id (attr_get ad ''title'') media_type href) = Inr d"
      and "st' = st\<lparr>in_meta_item := True, current_item := Some (copy_data_attrs ad d)\<rparr>"
proof (cases "tag = ''a'' \<and> has_key ad ''class''")
  case False
  with assms have "st' = st" by (auto simp: meta_item_step_def)
  then show ?thesis by (rule unchanged)
next
  case True
  note t = this
  show ?thesis
  proof (cases "attr_get ad ''class''")
    case None
    with assms t show ?thesis by (simp add: meta_item_step_def)
  next
    case (Some classes)
    note c = this
    show ?thesis
    proof (cases "contains ''meta-item-container'' classes")
      case False
      with assms t c have "st' = st" by (simp add: meta_item_step_def)
      then show ?thesis by (rule unchanged)
    next
      case True
      note m = this
      show ?thesis
      proof (cases "attr_get ad ''href''")
        case None
        with assms t c m show ?thesis by (simp add: meta_item_step_def)
      next
        case (Some href)
        note h = this
        show ?thesis
        proof (cases "search imdb_at href")
          case None
          with assms t c m h have "st' = st\<lparr>in_meta_item := True\<rparr>"
            by (simp add: meta_item_step_def)
          with t show ?thesis by (auto intro: no_id)
        next
          case (Some p)
          obtain media_type imdb_id where p: "p = (media_type, imdb_id)" by (cases p)
          show ?thesis
          proof (cases "with_episode href (new_item imdb_id (attr_get ad ''title'') media_type href)")
            case (Inl e)
            with assms t c m h Some p show ?thesis by (simp add: meta_item_step_def)
          next
            case (Inr d)
            with assms t c m h Some p
            have "st' = st\<lparr>in_meta_item := True, current_item := Some (copy_data_attrs ad d)\<rparr>"
              by (simp add: meta_item_step_def)
            with t c m h Some p Inr show ?thesis by (auto intro: fresh)
          qed
        qed
      qed
    qed
  qed
qed

lemma meta_item_step_ok:
  assumes "meta_item_step tag ad st = Inr st'" and "state_ok st"
  shows "state_ok st'"
  using assms(1)
proof (cases rule: meta_item_step_cases)
  case unchanged
  with assms(2) show ?thesis by simp
next
  case no_id
  with assms(2) show ?thesis by (simp add: state_ok_def)
next
  case (fresh classes href media_type imdb_id d)
  from with_episode_ok[OF new_item_ok fresh(7)] have "item_ok d" .
  from item_frame_ok[OF copy_data_attrs_frame this] have "item_ok (copy_data_attrs ad d)"
    by auto
  with fresh(8) assms(2) show ?thesis by (simp add: state_ok_def)
qed

lemma steps_inv:
  "steps fs s = Inr s' \<Longrightarrow> P s \<Longrightarrow> (\<And>f a b. f \<in> set fs \<Longrightarrow> P a \<Longrightarrow> f a = Inr b \<Longrightarrow> P b)
     \<Longrightarrow> P s'"
proof (induction fs arbitrary: s)
  case Nil
  then show ?case by simp
next
  case (Cons f fs)
  from Cons.prems(1) obtain s1 where f: "f s = Inr s1" and r: "steps fs s1 = Inr s'"
    by (auto split: sum.splits)
  have p1: "P s1" by (rule Cons.prems(3)[of f s s1]) (simp_all add: Cons.prems(2) f)
  show ?case
  proof (rule Cons.IH[OF r p1])
    fix g a b
    assume "g \<in> set fs" "P a" "g a = Inr b"
    then show "P b" using Cons.prems(3)[of g a b] by simp
  qed
qed

lemma handle_starttag_ok:
  assumes "handle_starttag u st tag attrs = Inr st'" and "state_ok st"
  shows "state_ok st'"
  using assms(1) unfolding handle_starttag_def Let_def
proof (rule steps_inv[where P = state_ok, OF _ assms(2)])
  fix f a b
  assume f: "f \<in> set [meta_item_step tag (dict_of attrs), watched_step tag (dict_of attrs),
             progress_step tag (dict_of attrs), poster_step u tag (dict_of attrs),
             img_step u tag (dict_of attrs),
             capture_step title_rule ''title_text'' tag (dict_of attrs),
             capture_step release_rule ''release_info'' tag (dict_of attrs),
             capture_step duration_rule ''duration'' tag (dict_of attrs),
             capture_step episode_title_rule ''episode_title'' tag (dict_of attrs),
             inline_style_step u tag (dict_of attrs)]"
    and a: "state_ok a" and b: "f a = Inr b"
  from f consider
      "f = meta_item_step tag (dict_of attrs)" | "f = watched_step tag (dict_of attrs)"
    | "f = progress_step tag (dict_of attrs)" | "f = poster_step u tag (dict_of attrs)"
    | "f = img_step u tag (dict_of attrs)"
    | m fld where "f = capture_step m fld tag (dict_of attrs)"
    | "f = inline_style_step u tag (dict_of attrs)"
    by auto
  then show "state_ok b"
  proof cases
    case 1
    with a b show ?thesis by (auto intro: meta_item_step_ok)
  next
    case 2
    with b have "state_frame {''is_watched''} a b" by (simp add: watched_step_frame)
    from state_frame_ok[OF this a] show ?thesis by simp
  next
    case 3
    with a b show ?thesis by (auto intro: progress_step_ok)
  next
    case 4
    with b have "state_frame {''poster_url'', ''poster_shape''} a b" by (simp add: poster_step_frame)
    from state_frame_ok[OF this a] show ?thesis by simp
  next
    case 5
    with b have "state_frame {''poster_url'', ''title''} a b" by (simp add: img_step_frame)
    from state_frame_ok[OF this a] show ?thesis by simp
  next
    case 6
    with b have "state_frame {} a b" by (simp add: capture_step_frame)
    from state_frame_ok[OF this a] show ?thesis by simp
  next
    case 7
    with b have "state_frame {''poster_url''} a b" by (simp add: inline_style_step_frame)
    from state_frame_ok[OF this a] show ?thesis by simp
  qed
qed

lemma release_text_frame:
  "release_text txt d = Inr d' \<Longrightarrow> item_frame {''release_info'', ''year''} d d'"
  by (auto simp: release_text_def Let_def item_frame_def update_not_Nil distinct_update update_conv'
           split: option.splits sum.splits)

lemma handle_data_frame:
  assumes "handle_data st data = Inr st'"
  shows "state_frame {''release_info'', ''year'', ''duration'', ''episode_title'', ''title''} st st'
         \<and> capture_text st' = capture_text st \<and> current_text_field st' = current_text_field st"
proof (cases "capture_text st \<and> strip data \<noteq> []")
  case False
  with assms have "st' = st" by (auto simp: handle_data_def)
  then show ?thesis by (simp add: state_frame_refl)
next
  case True
  with assms have o: "on_item (\<lambda>d.
          if current_text_field st = Some ''release_info'' then release_text (strip data) d
          else if current_text_field st = Some ''duration'' then
            Inr (AList.update ''duration'' (PStr (strip data)) d)
          else if current_text_field st = Some ''episode_title'' then
            Inr (AList.update ''episode_title'' (PStr (strip data)) d)
          else if current_text_field st = Some ''title_text'' then
            set_if_unset ''title'' (PStr (strip data)) d
          else Inr d) st = Inr st'"
    by (simp add: handle_data_def)
  show ?thesis
  proof (rule on_item_frame[OF o])
    fix d d'
    assume "(if current_text_field st = Some ''release_info'' then release_text (strip data) d
          else if current_text_field st = Some ''duration'' then
            Inr (AList.update ''duration'' (PStr (strip data)) d)
          else if current_text_field st = Some ''episode_title'' then
            Inr (AList.update ''episode_title'' (PStr (strip data)) d)
          else if current_text_field st = Some ''title_text'' then
            set_if_unset ''title'' (PStr (strip data)) d
          else Inr d) = Inr d'"
    then have f: "(if current_text_field st = Some ''release_info'' then release_text (strip data) d
          else if current_text_field st = Some ''duration'' then
            Inr (AList.update ''duration'' (PStr (strip data)) d)
          else if current_text_field st = Some ''episode_title'' then
            Inr (AList.update ''episode_title'' (PStr (strip data)) d)
          else if current_text_field st = Some ''title_text'' then
            set_if_unset ''title'' (PStr (strip data)) d
          else Inr d) = Inr d'" .
    show "item_frame {''release_info'', ''year'', ''duration'', ''episode_title'', ''title''} d d'"
    proof (cases "current_text_field st = Some ''release_info''")
      case True
      with f have "release_text (strip data) d = Inr d'" by simp
      from item_frame_mono[OF release_text_frame[OF this]] show ?thesis by simp
    next
      case False
      note n1 = this
      show ?thesis
      proof (cases "current_text_field st = Some ''duration''")
        case True
        with f n1 have "d' = AList.update ''duration'' (PStr (strip data)) d"
          by simp
        then show ?thesis by (simp add: item_frame_update)
      next
        case False
        note n2 = this
        show ?thesis
        proof (cases "current_text_field st = Some ''episode_title''")
          case True
          with f n1 n2 have "d' = AList.update ''episode_title'' (PStr (strip data)) d"
            by simp
          then show ?thesis by (simp add: item_frame_update)
        next
          case False
          note n3 = this
          show ?thesis
          proof (cases "current_text_field st = Some ''title_text''")
            case True
            with f n1 n2 n3 have "set_if_unset ''title'' (PStr (strip data)) d = Inr d'"
              by simp
            from item_frame_mono[OF set_if_unset_frame[OF this]] show ?thesis by simp
          next
            case False
            with f n1 n2 n3 have "d' = d" by simp
            then show ?thesis by (simp add: item_frame_refl)
          qed
        qed
      qed
    qed
  qed
qed

lemma handle_data_ok: "handle_data st data = Inr st' \<Longrightarrow> state_ok st \<Longrightarrow> state_ok st'"
  using handle_data_frame state_frame_ok by blast

lemma handle_endtag_ok: "state_ok st \<Longrightarrow> state_ok (handle_endtag st tag)"
  by (auto simp: handle_endtag_def Let_def state_ok_def finalize_ok split: option.splits)

lemma feed_ok: "feed u st es = Inr st' \<Longrightarrow> state_ok st \<Longrightarrow> state_ok st'"
proof (induction es arbitrary: st)
  case Nil
  then show ?case by simp
next
  case (Cons e es)
  from Cons.prems(1) obtain st1 where e: "handle_event u st e = Inr st1"
    and r: "feed u st1 es = Inr st'"
    by (auto split: sum.splits)
  from e Cons.prems(2) have "state_ok st1"
    by (cases e) (auto intro: handle_starttag_ok handle_data_ok handle_endtag_ok)
  from Cons.IH[OF r this] show ?case .
qed

lemma scan_ok: "scan u es = Inr its \<Longrightarrow> list_all final_ok its"
proof -
  assume "scan u es = Inr its"
  then obtain st where f: "feed u init_state es = Inr st" and i: "its = items st"
    by (auto simp: scan_def split: sum.splits)
  have "state_ok init_state" by (simp add: state_ok_def init_state_def)
  from feed_ok[OF f this] i show ?thesis by (simp add: state_ok_def)
qed

text \<open>
  Claim C6, as amended. In every item the scanner produces, \<^verbatim>\<open>season\<close> and \<^verbatim>\<open>episode\<close>
  are both absent or both present, and when present they are integers that are not
  negative. Zero is possible: the link target \<^verbatim>\<open>tt5875444:0:3\<close> gives season 0.
\<close>

theorem season_episode_together:
  assumes "scan unquote es = Inr its"
  shows "list_all (\<lambda>it.
           (map_of it ''season'' = None \<and> map_of it ''episode'' = None)
           \<or> (\<exists>s e. 0 \<le> s \<and> 0 \<le> e \<and> map_of it ''season'' = Some (PInt s)
                    \<and> map_of it ''episode'' = Some (PInt e))) its"
  using scan_ok[OF assms] by (simp add: list_all_iff final_ok_def)

text \<open>
  Claim C7, as amended. No item the scanner produces has a \<^verbatim>\<open>None\<close> value: a field
  that is still \<^verbatim>\<open>None\<close> when the entity is finalized is left out. A field that starts
  with another default stays: without a title attribute, image alt text or label the
  item keeps \<^verbatim>\<open>title\<close> as the empty string.
\<close>

theorem finalized_without_none:
  assumes "scan unquote es = Inr its"
  shows "list_all (\<lambda>it. list_all (\<lambda>(k, v). v \<noteq> PNone) it) its"
  using scan_ok[OF assms] by (simp add: list_all_iff final_ok_def)


theorem season_episode_together_witness:
  "scan id [StartTag ''a'' [(''class'', Some ''meta-item-container''), (''href'', Some ''#/detail/series/tt5875444:0:3'')], EndTag ''a'']
     = Inr [[(''imdb_id'', PStr ''tt5875444''), (''title'', PStr []), (''type'', PStr ''show''),
        (''href'', PStr ''#/detail/series/tt5875444:0:3''), (''is_watched'', PBool False),
        (''progress'', PInt 0), (''season'', PInt 0), (''episode'', PInt 3)]]
   \<and> list_all (\<lambda>it.
           (map_of it ''season'' = None \<and> map_of it ''episode'' = None)
           \<or> (\<exists>s e. 0 \<le> s \<and> 0 \<le> e \<and> map_of it ''season'' = Some (PInt s)
                    \<and> map_of it ''episode'' = Some (PInt e)))
       [[(''imdb_id'', PStr ''tt5875444''), (''title'', PStr []), (''type'', PStr ''show''),
        (''href'', PStr ''#/detail/series/tt5875444:0:3''), (''is_watched'', PBool False),
        (''progress'', PInt 0), (''season'', PInt 0), (''episode'', PInt 3)]]"
proof -
  have c: "scan id [StartTag ''a'' [(''class'', Some ''meta-item-container''), (''href'', Some ''#/detail/series/tt5875444:0:3'')], EndTag ''a'']
     = Inr [[(''imdb_id'', PStr ''tt5875444''), (''title'', PStr []), (''type'', PStr ''show''),
        (''href'', PStr ''#/detail/series/tt5875444:0:3''), (''is_watched'', PBool False),
        (''progress'', PInt 0), (''season'', PInt 0), (''episode'', PInt 3)]]"
    by code_simp
  show ?thesis
    by (rule conjI[OF c season_episode_together[OF c]])
qed

theorem season_zero_counterexample:
  "scan id [StartTag ''a'' [(''class'', Some ''meta-item-container''), (''href'', Some ''#/detail/series/tt5875444:0:3'')], EndTag ''a'']
     = Inr [[(''imdb_id'', PStr ''tt5875444''), (''title'', PStr []), (''type'', PStr ''show''),
        (''href'', PStr ''#/detail/series/tt5875444:0:3''), (''is_watched'', PBool False),
        (''progress'', PInt 0), (''season'', PInt 0), (''episode'', PInt 3)]]
   \<and> \<not> (\<exists>s e. 0 < s \<and> 0 < e
          \<and> map_of (hd [[(''imdb_id'', PStr ''tt5875444''), (''title'', PStr []), (''type'', PStr ''show''),
        (''href'', PStr ''#/detail/series/tt5875444:0:3''), (''is_watched'', PBool False),
        (''progress'', PInt 0), (''season'', PInt 0), (''episode'', PInt 3)]]) ''season'' = Some (PInt s)
          \<and> map_of (hd [[(''imdb_id'', PStr ''tt5875444''), (''title'', PStr []), (''type'', PStr ''show''),
        (''href'', PStr ''#/detail/series/tt5875444:0:3''), (''is_watched'', PBool False),
        (''progress'', PInt 0), (''season'', PInt 0), (''episode'', PInt 3)]]) ''episode'' = Some (PInt e))"
proof -
  have c: "scan id [StartTag ''a'' [(''class'', Some ''meta-item-container''), (''href'', Some ''#/detail/series/tt5875444:0:3'')], EndTag ''a'']
     = Inr [[(''imdb_id'', PStr ''tt5875444''), (''title'', PStr []), (''type'', PStr ''show''),
        (''href'', PStr ''#/detail/series/tt5875444:0:3''), (''is_watched'', PBool False),
        (''progress'', PInt 0), (''season'', PInt 0), (''episode'', PInt 3)]]"
    by code_simp
  show ?thesis
    by (rule conjI[OF c]) simp
qed

theorem finalized_without_none_witness:
  "scan id [StartTag ''a'' [(''class'', Some ''meta-item-container''),
                       (''href'', Some ''#/detail/movie/tt1234567''),
                       (''title'', Some ''Example Film''), (''data-id'', None)],
        StartTag ''div'' [(''class'', Some ''watched-icon-layer'')], EndTag ''div'',
        EndTag ''a'']
     = Inr [[(''imdb_id'', PStr ''tt1234567''), (''title'', PStr ''Example Film''),
        (''type'', PStr ''movie''), (''href'', PStr ''#/detail/movie/tt1234567''),
        (''is_watched'', PBool True), (''progress'', PInt 0)]]
   \<and> list_all (\<lambda>it. list_all (\<lambda>(k, v). v \<noteq> PNone) it)
       [[(''imdb_id'', PStr ''tt1234567''), (''title'', PStr ''Example Film''),
        (''type'', PStr ''movie''), (''href'', PStr ''#/detail/movie/tt1234567''),
        (''is_watched'', PBool True), (''progress'', PInt 0)]]"
proof -
  have c: "scan id [StartTag ''a'' [(''class'', Some ''meta-item-container''),
                       (''href'', Some ''#/detail/movie/tt1234567''),
                       (''title'', Some ''Example Film''), (''data-id'', None)],
        StartTag ''div'' [(''class'', Some ''watched-icon-layer'')], EndTag ''div'',
        EndTag ''a'']
     = Inr [[(''imdb_id'', PStr ''tt1234567''), (''title'', PStr ''Example Film''),
        (''type'', PStr ''movie''), (''href'', PStr ''#/detail/movie/tt1234567''),
        (''is_watched'', PBool True), (''progress'', PInt 0)]]"
    by code_simp
  show ?thesis
    by (rule conjI[OF c finalized_without_none[OF c]])
qed

theorem empty_title_counterexample:
  "scan id [StartTag ''a'' [(''class'', Some ''meta-item-container''), (''href'', Some ''#/detail/movie/tt1234567'')], EndTag ''a'']
     = Inr [[(''imdb_id'', PStr ''tt1234567''), (''title'', PStr []), (''type'', PStr ''movie''),
        (''href'', PStr ''#/detail/movie/tt1234567''), (''is_watched'', PBool False),
        (''progress'', PInt 0)]]
   \<and> map_of (hd [[(''imdb_id'', PStr ''tt1234567''), (''title'', PStr []), (''type'', PStr ''movie''),
        (''href'', PStr ''#/detail/movie/tt1234567''), (''is_watched'', PBool False),
        (''progress'', PInt 0)]]) ''title'' = Some (PStr [])"
proof -
  have c: "scan id [StartTag ''a'' [(''class'', Some ''meta-item-container''), (''href'', Some ''#/detail/movie/tt1234567'')], EndTag ''a'']
     = Inr [[(''imdb_id'', PStr ''tt1234567''), (''title'', PStr []), (''type'', PStr ''movie''),
        (''href'', PStr ''#/detail/movie/tt1234567''), (''is_watched'', PBool False),
        (''progress'', PInt 0)]]"
    by code_simp
  show ?thesis
    by (rule conjI[OF c]) simp
qed

lemma state_frame_progress_zero:
  assumes "state_frame K st st'" and "progress_zero st" and "''progress'' \<notin> K"
  shows "progress_zero st' \<and> items st' = items st"
  using assms
  by (cases "current_item st"; cases "current_item st'")
     (auto simp: state_frame_def progress_zero_def item_frame_def)

lemma with_episode_frame:
  "with_episode href d = Inr d' \<Longrightarrow> item_frame {''season'', ''episode''} d d'"
  by (auto simp: with_episode_def item_frame_def update_not_Nil distinct_update update_conv'
           split: option.splits sum.splits prod.splits)

lemma fresh_item_progress:
  assumes "with_episode href (new_item imdb_id title media_type href) = Inr d"
  shows "map_of (copy_data_attrs ad d) ''progress'' = Some (PInt 0)"
proof -
  have "map_of (new_item imdb_id title media_type href) ''progress'' = Some (PInt 0)"
    by (simp add: new_item_def)
  moreover from with_episode_frame[OF assms]
  have "map_of d ''progress'' = map_of (new_item imdb_id title media_type href) ''progress''"
    by (simp add: item_frame_def)
  moreover from copy_data_attrs_frame[of d ad]
  have "map_of (copy_data_attrs ad d) ''progress'' = map_of d ''progress''"
    by (simp add: item_frame_def)
  ultimately show ?thesis by simp
qed

lemma meta_item_step_progress_zero:
  assumes "meta_item_step tag ad st = Inr st'" and "progress_zero st"
  shows "progress_zero st' \<and> items st' = items st"
  using assms(1)
proof (cases rule: meta_item_step_cases)
  case unchanged
  with assms(2) show ?thesis by simp
next
  case no_id
  with assms(2) show ?thesis by (simp add: progress_zero_def)
next
  case (fresh classes href media_type imdb_id d)
  from fresh_item_progress[OF fresh(7)] fresh(8) show ?thesis
    by (simp add: progress_zero_def)
qed

lemma current_item_same: "current_item st = c \<Longrightarrow> st\<lparr>current_item := c\<rparr> = st"
  by (cases st) simp

lemma progress_step_no_bar:
  assumes "progress_step tag (dict_of attrs) st = Inr st'"
    and "\<not> progress_bar_tag (StartTag tag attrs)"
  shows "st' = st"
proof (cases "current_item st")
  case None
  with assms(1) show ?thesis by (simp add: progress_step_def on_item_def)
next
  case (Some d)
  show ?thesis
  proof (cases "d = []")
    case True
    with Some assms(1) show ?thesis by (simp add: progress_step_def on_item_def)
  next
    case False
    show ?thesis
    proof (cases "tag = ''div'' \<and> has_key (dict_of attrs) ''class''")
      case False
      with Some \<open>d \<noteq> []\<close> assms(1) show ?thesis
        by (auto simp: progress_step_def on_item_def)
    next
      case True
      then obtain x where x: "map_of (dict_of attrs) ''class'' = Some x"
        by (auto simp: has_key_def)
      show ?thesis
      proof (cases x)
        case None
        with x True Some \<open>d \<noteq> []\<close> assms(1) show ?thesis
          by (simp add: progress_step_def on_item_def attr_get_def)
      next
        case (Some classes)
        with x True assms(2)
        have "\<not> (contains ''progress-bar'' classes \<or> contains ''progressBar'' (lower classes))"
          by (simp add: progress_bar_tag_def)
        with x Some True \<open>current_item st = Some d\<close> \<open>d \<noteq> []\<close> assms(1) show ?thesis
          by (auto simp: progress_step_def on_item_def attr_get_def current_item_same)
      qed
    qed
  qed
qed

lemma handle_starttag_progress_zero:
  assumes "handle_starttag u st tag attrs = Inr st'" and "progress_zero st"
    and "\<not> progress_bar_tag (StartTag tag attrs)"
  shows "progress_zero st' \<and> items st' = items st"
  using assms(1) unfolding handle_starttag_def Let_def
proof (rule steps_inv[where P = "\<lambda>s. progress_zero s \<and> items s = items st"])
  show "progress_zero st \<and> items st = items st" using assms(2) by simp
next
  fix f a b
  assume f: "f \<in> set [meta_item_step tag (dict_of attrs), watched_step tag (dict_of attrs),
             progress_step tag (dict_of attrs), poster_step u tag (dict_of attrs),
             img_step u tag (dict_of attrs),
             capture_step title_rule ''title_text'' tag (dict_of attrs),
             capture_step release_rule ''release_info'' tag (dict_of attrs),
             capture_step duration_rule ''duration'' tag (dict_of attrs),
             capture_step episode_title_rule ''episode_title'' tag (dict_of attrs),
             inline_style_step u tag (dict_of attrs)]"
    and a: "progress_zero a \<and> items a = items st" and b: "f a = Inr b"
  from f consider
      "f = meta_item_step tag (dict_of attrs)" | "f = watched_step tag (dict_of attrs)"
    | "f = progress_step tag (dict_of attrs)" | "f = poster_step u tag (dict_of attrs)"
    | "f = img_step u tag (dict_of attrs)"
    | m fld where "f = capture_step m fld tag (dict_of attrs)"
    | "f = inline_style_step u tag (dict_of attrs)"
    by auto
  then show "progress_zero b \<and> items b = items st"
  proof cases
    case 1
    with a b meta_item_step_progress_zero[of tag "dict_of attrs" a b] show ?thesis by simp
  next
    case 2
    with b have "state_frame {''is_watched''} a b" by (simp add: watched_step_frame)
    from state_frame_progress_zero[OF this] a show ?thesis by simp
  next
    case 3
    with b assms(3) have "b = a" by (simp add: progress_step_no_bar)
    with a show ?thesis by simp
  next
    case 4
    with b have "state_frame {''poster_url'', ''poster_shape''} a b" by (simp add: poster_step_frame)
    from state_frame_progress_zero[OF this] a show ?thesis by simp
  next
    case 5
    with b have "state_frame {''poster_url'', ''title''} a b" by (simp add: img_step_frame)
    from state_frame_progress_zero[OF this] a show ?thesis by simp
  next
    case 6
    with b have "state_frame {} a b" by (simp add: capture_step_frame)
    from state_frame_progress_zero[OF this] a show ?thesis by simp
  next
    case 7
    with b have "state_frame {''poster_url''} a b" by (simp add: inline_style_step_frame)
    from state_frame_progress_zero[OF this] a show ?thesis by simp
  qed
qed

lemma handle_data_progress_zero:
  assumes "handle_data st data = Inr st'" and "progress_zero st"
  shows "progress_zero st' \<and> items st' = items st"
proof -
  from handle_data_frame[OF assms(1)]
  have "state_frame {''release_info'', ''year'', ''duration'', ''episode_title'', ''title''} st st'"
    by simp
  from state_frame_progress_zero[OF this assms(2)] show ?thesis by simp
qed

lemma map_of_finalize_kept:
  "map_of d k = Some v \<Longrightarrow> v \<noteq> PNone \<Longrightarrow> map_of (finalize d) k = Some v"
  by (induction d) (auto simp: finalize_def split: if_splits)

lemma handle_endtag_progress_zero:
  assumes "progress_zero st"
  shows "progress_zero (handle_endtag st tag)
         \<and> (\<exists>new. items (handle_endtag st tag) = items st @ new
                  \<and> list_all (\<lambda>it. map_of it ''progress'' = Some (PInt 0)) new)"
proof (cases "tag = ''a'' \<and> in_meta_item st \<and> (\<exists>d. current_item st = Some d \<and> d \<noteq> [])")
  case True
  then obtain d where d: "current_item st = Some d" "d \<noteq> []" by blast
  with True have i: "items (handle_endtag st tag) = items st @ [finalize d]"
    and c: "current_item (handle_endtag st tag) = None"
    by (simp_all add: handle_endtag_def)
  from assms d have "map_of d ''progress'' = Some (PInt 0)" by (simp add: progress_zero_def)
  then have "map_of (finalize d) ''progress'' = Some (PInt 0)"
    by (rule map_of_finalize_kept) simp
  with i c show ?thesis by (simp add: progress_zero_def)
next
  case False
  then have "items (handle_endtag st tag) = items st"
    and "current_item (handle_endtag st tag) = current_item st"
    by (auto simp: handle_endtag_def Let_def split: option.splits)
  with assms show ?thesis by (simp add: progress_zero_def)
qed

lemma feed_progress_zero:
  assumes "feed u st es = Inr st'" and "progress_zero st"
    and "list_all (\<lambda>e. \<not> progress_bar_tag e) es"
  shows "\<exists>new. items st' = items st @ new
               \<and> list_all (\<lambda>it. map_of it ''progress'' = Some (PInt 0)) new"
  using assms
proof (induction es arbitrary: st)
  case Nil
  then show ?case by simp
next
  case (Cons e es)
  from Cons.prems(1) obtain st1 where e: "handle_event u st e = Inr st1"
    and r: "feed u st1 es = Inr st'"
    by (auto split: sum.splits)
  from Cons.prems(3) have ne: "\<not> progress_bar_tag e" and nes: "list_all (\<lambda>e. \<not> progress_bar_tag e) es"
    by simp_all
  have "progress_zero st1 \<and> (\<exists>new. items st1 = items st @ new
          \<and> list_all (\<lambda>it. map_of it ''progress'' = Some (PInt 0)) new)"
  proof (cases e)
    case (StartTag tag attrs)
    with e ne Cons.prems(2) handle_starttag_progress_zero[of u st tag attrs st1]
    show ?thesis by simp
  next
    case (EndTag tag)
    with e handle_endtag_progress_zero[OF Cons.prems(2), of tag] show ?thesis by auto
  next
    case (Data data)
    with e Cons.prems(2) handle_data_progress_zero[of st data st1] show ?thesis by simp
  qed
  then obtain new1 where z1: "progress_zero st1" and i1: "items st1 = items st @ new1"
    and l1: "list_all (\<lambda>it. map_of it ''progress'' = Some (PInt 0)) new1"
    by blast
  from Cons.IH[OF r z1 nes] obtain new2 where i2: "items st' = items st1 @ new2"
    and l2: "list_all (\<lambda>it. map_of it ''progress'' = Some (PInt 0)) new2"
    by blast
  from i1 i2 l1 l2 show ?case by simp
qed

text \<open>
  Claim C4, as amended. In every item the scanner produces, \<^verbatim>\<open>progress\<close> is the
  initial integer 0 or a float that is not negative; nothing bounds it by 100
  (\<^verbatim>\<open>width: 250%\<close> gives 250). And over any stretch of the document that starts with no
  entity open and has no progress-bar element (a \<^verbatim>\<open>div\<close> whose class passes the test
  of line 97), every entity finalized in that stretch has the default progress 0.
\<close>

theorem progress_nonnegative_default_zero:
  "(scan unquote es = Inr its \<longrightarrow>
      list_all (\<lambda>it. map_of it ''progress'' = Some (PInt 0)
                    \<or> (\<exists>r\<ge>0. map_of it ''progress'' = Some (PFloat r))) its)
   \<and> (feed unquote st es = Inr st' \<and> current_item st = None
        \<and> list_all (\<lambda>e. \<not> progress_bar_tag e) es \<longrightarrow>
      (\<exists>new. items st' = items st @ new
            \<and> list_all (\<lambda>it. map_of it ''progress'' = Some (PInt 0)) new))"
proof (intro conjI impI)
  assume "scan unquote es = Inr its"
  from scan_ok[OF this]
  show "list_all (\<lambda>it. map_of it ''progress'' = Some (PInt 0)
                    \<or> (\<exists>r\<ge>0. map_of it ''progress'' = Some (PFloat r))) its"
    by (simp add: list_all_iff final_ok_def)
next
  assume a: "feed unquote st es = Inr st' \<and> current_item st = None
        \<and> list_all (\<lambda>e. \<not> progress_bar_tag e) es"
  then have "progress_zero st" by (simp add: progress_zero_def)
  with a feed_progress_zero[of unquote st es st']
  show "\<exists>new. items st' = items st @ new
            \<and> list_all (\<lambda>it. map_of it ''progress'' = Some (PInt 0)) new"
    by simp
qed

theorem progress_nonnegative_default_zero_witness:
  "scan id [StartTag ''a'' [(''class'', Some ''meta-item-container''),
                           (''href'', Some ''#/detail/series/tt7654321:2:5'')],
            StartTag ''div'' [(''class'', Some ''progress-bar''), (''style'', Some ''width: 45.5%'')],
            EndTag ''div'', EndTag ''a'']
     = Inr [[(''imdb_id'', PStr ''tt7654321''), (''title'', PStr []), (''type'', PStr ''show''),
             (''href'', PStr ''#/detail/series/tt7654321:2:5''), (''is_watched'', PBool False),
             (''progress'', PFloat 45.5), (''season'', PInt 2), (''episode'', PInt 5)]]
   \<and> list_all (\<lambda>it. map_of it ''progress'' = Some (PInt 0)
                    \<or> (\<exists>r\<ge>0. map_of it ''progress'' = Some (PFloat r)))
        [[(''imdb_id'', PStr ''tt7654321''), (''title'', PStr []), (''type'', PStr ''show''),
             (''href'', PStr ''#/detail/series/tt7654321:2:5''), (''is_watched'', PBool False),
             (''progress'', PFloat 45.5), (''season'', PInt 2), (''episode'', PInt 5)]]
   \<and> feed id init_state [StartTag ''a'' [(''class'', Some ''meta-item-container''),
                           (''href'', Some ''#/detail/movie/tt1234567'')],
            StartTag ''div'' [(''class'', Some ''title-label'')], Data '' Example Film '',
            EndTag ''div'', EndTag ''a'']
     = Inr \<lparr>items = [[(''imdb_id'', PStr ''tt1234567''), (''title'', PStr ''Example Film''),
                       (''type'', PStr ''movie''), (''href'', PStr ''#/detail/movie/tt1234567''),
                       (''is_watched'', PBool False), (''progress'', PInt 0)]],
             current_item = None, in_meta_item = False, in_title_label = False,
             capture_text = False, current_text_field = None\<rparr>
   \<and> (\<exists>new. items \<lparr>items = [[(''imdb_id'', PStr ''tt1234567''), (''title'', PStr ''Example Film''),
                       (''type'', PStr ''movie''), (''href'', PStr ''#/detail/movie/tt1234567''),
                       (''is_watched'', PBool False), (''progress'', PInt 0)]],
             current_item = None, in_meta_item = False, in_title_label = False,
             capture_text = False, current_text_field = None\<rparr> = items init_state @ new
            \<and> list_all (\<lambda>it. map_of it ''progress'' = Some (PInt 0)) new)"
proof -
  have s: "scan id [StartTag ''a'' [(''class'', Some ''meta-item-container''),
                           (''href'', Some ''#/detail/series/tt7654321:2:5'')],
            StartTag ''div'' [(''class'', Some ''progress-bar''), (''style'', Some ''width: 45.5%'')],
            EndTag ''div'', EndTag ''a'']
     = Inr [[(''imdb_id'', PStr ''tt7654321''), (''title'', PStr []), (''type'', PStr ''show''),
             (''href'', PStr ''#/detail/series/tt7654321:2:5''), (''is_watched'', PBool False),
             (''progress'', PFloat 45.5), (''season'', PInt 2), (''episode'', PInt 5)]]"
    by code_simp
  have f: "feed id init_state [StartTag ''a'' [(''class'', Some ''meta-item-container''),
                           (''href'', Some ''#/detail/movie/tt1234567'')],
            StartTag ''div'' [(''class'', Some ''title-label'')], Data '' Example Film '',
            EndTag ''div'', EndTag ''a'']
     = Inr \<lparr>items = [[(''imdb_id'', PStr ''tt1234567''), (''title'', PStr ''Example Film''),
                       (''type'', PStr ''movie''), (''href'', PStr ''#/detail/movie/tt1234567''),
                       (''is_watched'', PBool False), (''progress'', PInt 0)]],
             current_item = None, in_meta_item = False, in_title_label = False,
             capture_text = False, current_text_field = None\<rparr>"
    by code_simp
  have n: "current_item init_state = None"
    by (simp add: init_state_def)
  have b: "list_all (\<lambda>e. \<not> progress_bar_tag e) [StartTag ''a'' [(''class'', Some ''meta-item-container''),
                           (''href'', Some ''#/detail/movie/tt1234567'')],
            StartTag ''div'' [(''class'', Some ''title-label'')], Data '' Example Film '',
            EndTag ''div'', EndTag ''a'']"
    by code_simp
  from progress_nonnegative_default_zero[of id "[StartTag ''a'' [(''class'', Some ''meta-item-container''),
                           (''href'', Some ''#/detail/series/tt7654321:2:5'')],
            StartTag ''div'' [(''class'', Some ''progress-bar''), (''style'', Some ''width: 45.5%'')],
            EndTag ''div'', EndTag ''a'']" "[[(''imdb_id'', PStr ''tt7654321''), (''title'', PStr []), (''type'', PStr ''show''),
             (''href'', PStr ''#/detail/series/tt7654321:2:5''), (''is_watched'', PBool False),
             (''progress'', PFloat 45.5), (''season'', PInt 2), (''episode'', PInt 5)]]"] s
  have p1: "list_all (\<lambda>it. map_of it ''progress'' = Some (PInt 0)
                    \<or> (\<exists>r\<ge>0. map_of it ''progress'' = Some (PFloat r)))
        [[(''imdb_id'', PStr ''tt7654321''), (''title'', PStr []), (''type'', PStr ''show''),
             (''href'', PStr ''#/detail/series/tt7654321:2:5''), (''is_watched'', PBool False),
             (''progress'', PFloat 45.5), (''season'', PInt 2), (''episode'', PInt 5)]]"
    by blast
  from progress_nonnegative_default_zero[of id "[StartTag ''a'' [(''class'', Some ''meta-item-container''),
                           (''href'', Some ''#/detail/movie/tt1234567'')],
            StartTag ''div'' [(''class'', Some ''title-label'')], Data '' Example Film '',
            EndTag ''div'', EndTag ''a'']" _ init_state "\<lparr>items = [[(''imdb_id'', PStr ''tt1234567''), (''title'', PStr ''Example Film''),
                       (''type'', PStr ''movie''), (''href'', PStr ''#/detail/movie/tt1234567''),
                       (''is_watched'', PBool False), (''progress'', PInt 0)]],
             current_item = None, in_meta_item = False, in_title_label = False,
             capture_text = False, current_text_field = None\<rparr>"] f n b
  have p2: "\<exists>new. items \<lparr>items = [[(''imdb_id'', PStr ''tt1234567''), (''title'', PStr ''Example Film''),
                       (''type'', PStr ''movie''), (''href'', PStr ''#/detail/movie/tt1234567''),
                       (''is_watched'', PBool False), (''progress'', PInt 0)]],
             current_item = None, in_meta_item = False, in_title_label = False,
             capture_text = False, current_text_field = None\<rparr> = items init_state @ new
            \<and> list_all (\<lambda>it. map_of it ''progress'' = Some (PInt 0)) new"
    by blast
  from s p1 f p2 show ?thesis by blast
qed

theorem progress_above_100_counterexample:
  "scan id [StartTag ''a'' [(''class'', Some ''meta-item-container''),
                           (''href'', Some ''#/detail/movie/tt1234567'')],
            StartTag ''div'' [(''class'', Some ''progress-bar''), (''style'', Some ''width: 250%'')],
            EndTag ''div'', EndTag ''a'']
     = Inr [[(''imdb_id'', PStr ''tt1234567''), (''title'', PStr []), (''type'', PStr ''movie''),
             (''href'', PStr ''#/detail/movie/tt1234567''), (''is_watched'', PBool False),
             (''progress'', PFloat 250)]]
   \<and> \<not> (\<exists>r. 0 \<le> r \<and> r \<le> 100
          \<and> map_of (hd [[(''imdb_id'', PStr ''tt1234567''), (''title'', PStr []), (''type'', PStr ''movie''),
             (''href'', PStr ''#/detail/movie/tt1234567''), (''is_watched'', PBool False),
             (''progress'', PFloat 250)]]) ''progress'' = Some (PFloat r))"
proof -
  have c: "scan id [StartTag ''a'' [(''class'', Some ''meta-item-container''),
                           (''href'', Some ''#/detail/movie/tt1234567'')],
            StartTag ''div'' [(''class'', Some ''progress-bar''), (''style'', Some ''width: 250%'')],
            EndTag ''div'', EndTag ''a'']
     = Inr [[(''imdb_id'', PStr ''tt1234567''), (''title'', PStr []), (''type'', PStr ''movie''),
             (''href'', PStr ''#/detail/movie/tt1234567''), (''is_watched'', PBool False),
             (''progress'', PFloat 250)]]"
    by code_simp
  show ?thesis
    by (rule conjI[OF c]) simp
qed

lemma steps_Cons_Inr:
  "(steps (f # fs) s = Inr s') = (\<exists>s1. f s = Inr s1 \<and> steps fs s1 = Inr s')"
  by (cases "f s") auto

lemma handle_starttag_chain:
  assumes "handle_starttag u st tag attrs = Inr st'"
  obtains s1 s2 s3 s4 s5 s6 s7 s8 s9 where
    "meta_item_step tag (dict_of attrs) st = Inr s1"
    "watched_step tag (dict_of attrs) s1 = Inr s2"
    "progress_step tag (dict_of attrs) s2 = Inr s3"
    "poster_step u tag (dict_of attrs) s3 = Inr s4"
    "img_step u tag (dict_of attrs) s4 = Inr s5"
    "capture_step title_rule ''title_text'' tag (dict_of attrs) s5 = Inr s6"
    "capture_step release_rule ''release_info'' tag (dict_of attrs) s6 = Inr s7"
    "capture_step duration_rule ''duration'' tag (dict_of attrs) s7 = Inr s8"
    "capture_step episode_title_rule ''episode_title'' tag (dict_of attrs) s8 = Inr s9"
    "inline_style_step u tag (dict_of attrs) s9 = Inr st'"
  using assms unfolding handle_starttag_def Let_def steps_Cons_Inr steps.simps(1)
  by blast

lemma state_frame_open: "state_frame K st st' \<Longrightarrow> item_open st \<Longrightarrow> item_open st'"
  by (cases "current_item st"; cases "current_item st'")
     (auto simp: state_frame_def item_open_def item_frame_def)

lemma meta_item_step_other_tag: "tag \<noteq> ''a'' \<Longrightarrow> meta_item_step tag ad st = Inr st"
  by (simp add: meta_item_step_def)

lemma capture_step_effect:
  assumes "item_open st" and "tag \<in> {''div'', ''span'', ''p''}"
    and "map_of ad ''class'' = Some (Some classes)"
  shows "capture_step m fld tag ad st =
           Inr (if m (lower classes)
                then st\<lparr>capture_text := True, current_text_field := Some fld\<rparr> else st)"
  using assms by (simp add: capture_step_def has_key_def attr_get_def py_lower_def)

lemma item_open_capture:
  "item_open (st\<lparr>capture_text := a, current_text_field := b\<rparr>) = item_open st"
  by (simp add: item_open_def)

lemma capture_fields_by_rules:
  assumes "handle_starttag unquote st tag attrs = Inr st'"
    and "item_open st"
    and "tag \<in> {''div'', ''span'', ''p''}"
    and "map_of (dict_of attrs) ''class'' = Some (Some classes)"
  shows "current_text_field st' =
           (if episode_title_rule (lower classes) then Some ''episode_title''
            else if duration_rule (lower classes) then Some ''duration''
            else if release_rule (lower classes) then Some ''release_info''
            else if title_rule (lower classes) then Some ''title_text''
            else current_text_field st)
       \<and> capture_text st' =
           (capture_text st \<or> title_rule (lower classes) \<or> release_rule (lower classes)
            \<or> duration_rule (lower classes) \<or> episode_title_rule (lower classes))
       \<and> (contains ''episode'' (lower classes) \<and> contains ''title'' (lower classes)
            \<longrightarrow> current_text_field st' = Some ''episode_title'')"
proof -
  from assms(1) obtain s1 s2 s3 s4 s5 s6 s7 s8 s9 where
    c1: "meta_item_step tag (dict_of attrs) st = Inr s1"
    and c2: "watched_step tag (dict_of attrs) s1 = Inr s2"
    and c3: "progress_step tag (dict_of attrs) s2 = Inr s3"
    and c4: "poster_step unquote tag (dict_of attrs) s3 = Inr s4"
    and c5: "img_step unquote tag (dict_of attrs) s4 = Inr s5"
    and c6: "capture_step title_rule ''title_text'' tag (dict_of attrs) s5 = Inr s6"
    and c7: "capture_step release_rule ''release_info'' tag (dict_of attrs) s6 = Inr s7"
    and c8: "capture_step duration_rule ''duration'' tag (dict_of attrs) s7 = Inr s8"
    and c9: "capture_step episode_title_rule ''episode_title'' tag (dict_of attrs) s8 = Inr s9"
    and c10: "inline_style_step unquote tag (dict_of attrs) s9 = Inr st'"
    by (rule handle_starttag_chain)
  from assms(3) have "tag \<noteq> ''a''" by auto
  with c1 have s1: "s1 = st" by (simp add: meta_item_step_other_tag)
  from watched_step_frame[OF c2] progress_step_frame[OF c3] poster_step_frame[OF c4]
    img_step_frame[OF c5] s1 assms(2)
  have o5: "item_open s5" and t5: "capture_text s5 = capture_text st"
    and f5: "current_text_field s5 = current_text_field st"
    by (auto dest: state_frame_open)
  from c6 o5 assms(3,4)
  have s6: "s6 = (if title_rule (lower classes)
                  then s5\<lparr>capture_text := True, current_text_field := Some ''title_text''\<rparr> else s5)"
    by (simp add: capture_step_effect)
  with o5 have o6: "item_open s6" by (simp add: item_open_capture)
  from c7 o6 assms(3,4)
  have s7: "s7 = (if release_rule (lower classes)
                  then s6\<lparr>capture_text := True, current_text_field := Some ''release_info''\<rparr> else s6)"
    by (simp add: capture_step_effect)
  with o6 have o7: "item_open s7" by (simp add: item_open_capture)
  from c8 o7 assms(3,4)
  have s8: "s8 = (if duration_rule (lower classes)
                  then s7\<lparr>capture_text := True, current_text_field := Some ''duration''\<rparr> else s7)"
    by (simp add: capture_step_effect)
  with o7 have o8: "item_open s8" by (simp add: item_open_capture)
  from c9 o8 assms(3,4)
  have s9: "s9 = (if episode_title_rule (lower classes)
                  then s8\<lparr>capture_text := True, current_text_field := Some ''episode_title''\<rparr> else s8)"
    by (simp add: capture_step_effect)
  from inline_style_step_frame[OF c10]
  have e: "capture_text st' = capture_text s9" "current_text_field st' = current_text_field s9"
    by simp_all
  have f: "current_text_field st' =
           (if episode_title_rule (lower classes) then Some ''episode_title''
            else if duration_rule (lower classes) then Some ''duration''
            else if release_rule (lower classes) then Some ''release_info''
            else if title_rule (lower classes) then Some ''title_text''
            else current_text_field st)"
    using e s9 s8 s7 s6 f5 by simp
  have t: "capture_text st' =
           (capture_text st \<or> title_rule (lower classes) \<or> release_rule (lower classes)
            \<or> duration_rule (lower classes) \<or> episode_title_rule (lower classes))"
    using e s9 s8 s7 s6 t5 by auto
  from f t show ?thesis by (simp add: episode_title_rule_def)
qed

text \<open>
  Claim C8. For a \<^verbatim>\<open>div\<close>, \<^verbatim>\<open>span\<close> or \<^verbatim>\<open>p\<close> start tag with a class, processed while
  an entity is open, the four capture rules are tried in the order title/name/label,
  year/release/date, duration/runtime/time, episode-and-title, each on the lower-cased
  class, and the last rule that matches decides the capture target: the target is
  \<^verbatim>\<open>episode_title\<close> if the class contains \<^verbatim>\<open>episode\<close> and \<^verbatim>\<open>title\<close>; else \<^verbatim>\<open>duration\<close> if
  it contains \<^verbatim>\<open>duration\<close>, \<^verbatim>\<open>runtime\<close> or \<^verbatim>\<open>time\<close>; else \<^verbatim>\<open>release_info\<close> if it
  contains \<^verbatim>\<open>year\<close>, \<^verbatim>\<open>release\<close> or \<^verbatim>\<open>date\<close>; else \<^verbatim>\<open>title_text\<close> if it contains
  \<^verbatim>\<open>title\<close>, \<^verbatim>\<open>name\<close> or \<^verbatim>\<open>label\<close>; and it is unchanged when none matches. Capture is
  armed when any rule matches. A class that contains both \<^verbatim>\<open>episode\<close> and \<^verbatim>\<open>title\<close>
  arms \<^verbatim>\<open>episode_title\<close>, not \<^verbatim>\<open>title_text\<close>.
\<close>

theorem capture_last_match_wins:
  assumes "handle_starttag unquote st tag attrs = Inr st'"
    and "item_open st"
    and "tag \<in> {''div'', ''span'', ''p''}"
    and "map_of (dict_of attrs) ''class'' = Some (Some classes)"
  shows "current_text_field st' =
           (if contains ''episode'' (lower classes) \<and> contains ''title'' (lower classes)
            then Some ''episode_title''
            else if contains ''duration'' (lower classes) \<or> contains ''runtime'' (lower classes)
                    \<or> contains ''time'' (lower classes)
            then Some ''duration''
            else if contains ''year'' (lower classes) \<or> contains ''release'' (lower classes)
                    \<or> contains ''date'' (lower classes)
            then Some ''release_info''
            else if contains ''title'' (lower classes) \<or> contains ''name'' (lower classes)
                    \<or> contains ''label'' (lower classes)
            then Some ''title_text''
            else current_text_field st)
       \<and> capture_text st' =
           (capture_text st
            \<or> contains ''title'' (lower classes) \<or> contains ''name'' (lower classes)
            \<or> contains ''label'' (lower classes)
            \<or> contains ''year'' (lower classes) \<or> contains ''release'' (lower classes)
            \<or> contains ''date'' (lower classes)
            \<or> contains ''duration'' (lower classes) \<or> contains ''runtime'' (lower classes)
            \<or> contains ''time'' (lower classes)
            \<or> (contains ''episode'' (lower classes) \<and> contains ''title'' (lower classes)))
       \<and> (contains ''episode'' (lower classes) \<and> contains ''title'' (lower classes)
            \<longrightarrow> current_text_field st' = Some ''episode_title'')"
  using capture_fields_by_rules[OF assms]
  unfolding title_rule_def release_rule_def duration_rule_def episode_title_rule_def
  by simp







lemma dget_cong: "map_of d' k = map_of d k \<Longrightarrow> dget d' k = dget d k"
  by (simp add: dget_def)








theorem capture_last_match_wins_witness:
  "handle_starttag id
       \<lparr>items = [], current_item = Some (new_item ''tt1234567'' (Some ''Example Film'') ''movie'' ''#/detail/movie/tt1234567''),
        in_meta_item = True, in_title_label = False, capture_text = False,
        current_text_field = None\<rparr>
       ''span'' [(''class'', Some ''Episode-Title'')]
     = Inr \<lparr>items = [], current_item = Some (new_item ''tt1234567'' (Some ''Example Film'') ''movie'' ''#/detail/movie/tt1234567''),
        in_meta_item = True, in_title_label = False, capture_text = True,
        current_text_field = Some ''episode_title''\<rparr>
   \<and> current_text_field \<lparr>items = [], current_item = Some (new_item ''tt1234567'' (Some ''Example Film'') ''movie'' ''#/detail/movie/tt1234567''),
        in_meta_item = True, in_title_label = False, capture_text = True,
        current_text_field = Some ''episode_title''\<rparr> =
           (if contains ''episode'' (lower ''Episode-Title'') \<and> contains ''title'' (lower ''Episode-Title'')
            then Some ''episode_title''
            else if contains ''duration'' (lower ''Episode-Title'') \<or> contains ''runtime'' (lower ''Episode-Title'')
                    \<or> contains ''time'' (lower ''Episode-Title'')
            then Some ''duration''
            else if contains ''year'' (lower ''Episode-Title'') \<or> contains ''release'' (lower ''Episode-Title'')
                    \<or> contains ''date'' (lower ''Episode-Title'')
            then Some ''release_info''
            else if contains ''title'' (lower ''Episode-Title'') \<or> contains ''name'' (lower ''Episode-Title'')
                    \<or> contains ''label'' (lower ''Episode-Title'')
            then Some ''title_text''
            else current_text_field \<lparr>items = [], current_item = Some (new_item ''tt1234567'' (Some ''Example Film'') ''movie'' ''#/detail/movie/tt1234567''),
        in_meta_item = True, in_title_label = False, capture_text = False,
        current_text_field = None\<rparr>)
   \<and> capture_text \<lparr>items = [], current_item = Some (new_item ''tt1234567'' (Some ''Example Film'') ''movie'' ''#/detail/movie/tt1234567''),
        in_meta_item = True, in_title_label = False, capture_text = True,
        current_text_field = Some ''episode_title''\<rparr> =
           (capture_text \<lparr>items = [], current_item = Some (new_item ''tt1234567'' (Some ''Example Film'') ''movie'' ''#/detail/movie/tt1234567''),
        in_meta_item = True, in_title_label = False, capture_text = False,
        current_text_field = None\<rparr>
            \<or> contains ''title'' (lower ''Episode-Title'') \<or> contains ''name'' (lower ''Episode-Title'')
            \<or> contains ''label'' (lower ''Episode-Title'')
            \<or> contains ''year'' (lower ''Episode-Title'') \<or> contains ''release'' (lower ''Episode-Title'')
            \<or> contains ''date'' (lower ''Episode-Title'')
            \<or> contains ''duration'' (lower ''Episode-Title'') \<or> contains ''runtime'' (lower ''Episode-Title'')
            \<or> contains ''time'' (lower ''Episode-Title'')
            \<or> (contains ''episode'' (lower ''Episode-Title'') \<and> contains ''title'' (lower ''Episode-Title'')))
   \<and> handle_starttag id
       \<lparr>items = [], current_item = Some (new_item ''tt1234567'' (Some ''Example Film'') ''movie'' ''#/detail/movie/tt1234567''),
        in_meta_item = True, in_title_label = False, capture_text = False,
        current_text_field = None\<rparr>
       ''span'' [(''class'', Some ''release-date runtime'')]
     = Inr \<lparr>items = [], current_item = Some (new_item ''tt1234567'' (Some ''Example Film'') ''movie'' ''#/detail/movie/tt1234567''),
        in_meta_item = True, in_title_label = False, capture_text = True,
        current_text_field = Some ''duration''\<rparr>
   \<and> current_text_field \<lparr>items = [], current_item = Some (new_item ''tt1234567'' (Some ''Example Film'') ''movie'' ''#/detail/movie/tt1234567''),
        in_meta_item = True, in_title_label = False, capture_text = True,
        current_text_field = Some ''duration''\<rparr> =
           (if contains ''episode'' (lower ''release-date runtime'') \<and> contains ''title'' (lower ''release-date runtime'')
            then Some ''episode_title''
            else if contains ''duration'' (lower ''release-date runtime'') \<or> contains ''runtime'' (lower ''release-date runtime'')
                    \<or> contains ''time'' (lower ''release-date runtime'')
            then Some ''duration''
            else if contains ''year'' (lower ''release-date runtime'') \<or> contains ''release'' (lower ''release-date runtime'')
                    \<or> contains ''date'' (lower ''release-date runtime'')
            then Some ''release_info''
            else if contains ''title'' (lower ''release-date runtime'') \<or> contains ''name'' (lower ''release-date runtime'')
                    \<or> contains ''label'' (lower ''release-date runtime'')
            then Some ''title_text''
            else current_text_field \<lparr>items = [], current_item = Some (new_item ''tt1234567'' (Some ''Example Film'') ''movie'' ''#/detail/movie/tt1234567''),
        in_meta_item = True, in_title_label = False, capture_text = False,
        current_text_field = None\<rparr>)
   \<and> capture_text \<lparr>items = [], current_item = Some (new_item ''tt1234567'' (Some ''Example Film'') ''movie'' ''#/detail/movie/tt1234567''),
        in_meta_item = True, in_title_label = False, capture_text = True,
        current_text_field = Some ''duration''\<rparr> =
           (capture_text \<lparr>items = [], current_item = Some (new_item ''tt1234567'' (Some ''Example Film'') ''movie'' ''#/detail/movie/tt1234567''),
        in_meta_item = True, in_title_label = False, capture_text = False,
        current_text_field = None\<rparr>
            \<or> contains ''title'' (lower ''release-date runtime'') \<or> contains ''name'' (lower ''release-date runtime'')
            \<or> contains ''label'' (lower ''release-date runtime'')
            \<or> contains ''year'' (lower ''release-date runtime'') \<or> contains ''release'' (lower ''release-date runtime'')
            \<or> contains ''date'' (lower ''release-date runtime'')
            \<or> contains ''duration'' (lower ''release-date runtime'') \<or> contains ''runtime'' (lower ''release-date runtime'')
            \<or> contains ''time'' (lower ''release-date runtime'')
            \<or> (contains ''episode'' (lower ''release-date runtime'') \<and> contains ''title'' (lower ''release-date runtime'')))
   \<and> handle_starttag id
       \<lparr>items = [], current_item = Some (new_item ''tt1234567'' (Some ''Example Film'') ''movie'' ''#/detail/movie/tt1234567''),
        in_meta_item = True, in_title_label = False, capture_text = False,
        current_text_field = None\<rparr>
       ''span'' [(''class'', Some ''Year'')]
     = Inr \<lparr>items = [], current_item = Some (new_item ''tt1234567'' (Some ''Example Film'') ''movie'' ''#/detail/movie/tt1234567''),
        in_meta_item = True, in_title_label = False, capture_text = True,
        current_text_field = Some ''release_info''\<rparr>
   \<and> current_text_field \<lparr>items = [], current_item = Some (new_item ''tt1234567'' (Some ''Example Film'') ''movie'' ''#/detail/movie/tt1234567''),
        in_meta_item = True, in_title_label = False, capture_text = True,
        current_text_field = Some ''release_info''\<rparr> =
           (if contains ''episode'' (lower ''Year'') \<and> contains ''title'' (lower ''Year'')
            then Some ''episode_title''
            else if contains ''duration'' (lower ''Year'') \<or> contains ''runtime'' (lower ''Year'')
                    \<or> contains ''time'' (lower ''Year'')
            then Some ''duration''
            else if contains ''year'' (lower ''Year'') \<or> contains ''release'' (lower ''Year'')
                    \<or> contains ''date'' (lower ''Year'')
            then Some ''release_info''
            else if contains ''title'' (lower ''Year'') \<or> contains ''name'' (lower ''Year'')
                    \<or> contains ''label'' (lower ''Year'')
            then Some ''title_text''
            else current_text_field \<lparr>items = [], current_item = Some (new_item ''tt1234567'' (Some ''Example Film'') ''movie'' ''#/detail/movie/tt1234567''),
        in_meta_item = True, in_title_label = False, capture_text = False,
        current_text_field = None\<rparr>)
   \<and> capture_text \<lparr>items = [], current_item = Some (new_item ''tt1234567'' (Some ''Example Film'') ''movie'' ''#/detail/movie/tt1234567''),
        in_meta_item = True, in_title_label = False, capture_text = True,
        current_text_field = Some ''release_info''\<rparr> =
           (capture_text \<lparr>items = [], current_item = Some (new_item ''tt1234567'' (Some ''Example Film'') ''movie'' ''#/detail/movie/tt1234567''),
        in_meta_item = True, in_title_label = False, capture_text = False,
        current_text_field = None\<rparr>
            \<or> contains ''title'' (lower ''Year'') \<or> contains ''name'' (lower ''Year'')
            \<or> contains ''label'' (lower ''Year'')
            \<or> contains ''year'' (lower ''Year'') \<or> contains ''release'' (lower ''Year'')
            \<or> contains ''date'' (lower ''Year'')
            \<or> contains ''duration'' (lower ''Year'') \<or> contains ''runtime'' (lower ''Year'')
            \<or> contains ''time'' (lower ''Year'')
            \<or> (contains ''episode'' (lower ''Year'') \<and> contains ''title'' (lower ''Year'')))
   \<and> handle_starttag id
       \<lparr>items = [], current_item = Some (new_item ''tt1234567'' (Some ''Example Film'') ''movie'' ''#/detail/movie/tt1234567''),
        in_meta_item = True, in_title_label = False, capture_text = False,
        current_text_field = None\<rparr>
       ''span'' [(''class'', Some ''name-label'')]
     = Inr \<lparr>items = [], current_item = Some (new_item ''tt1234567'' (Some ''Example Film'') ''movie'' ''#/detail/movie/tt1234567''),
        in_meta_item = True, in_title_label = False, capture_text = True,
        current_text_field = Some ''title_text''\<rparr>
   \<and> current_text_field \<lparr>items = [], current_item = Some (new_item ''tt1234567'' (Some ''Example Film'') ''movie'' ''#/detail/movie/tt1234567''),
        in_meta_item = True, in_title_label = False, capture_text = True,
        current_text_field = Some ''title_text''\<rparr> =
           (if contains ''episode'' (lower ''name-label'') \<and> contains ''title'' (lower ''name-label'')
            then Some ''episode_title''
            else if contains ''duration'' (lower ''name-label'') \<or> contains ''runtime'' (lower ''name-label'')
                    \<or> contains ''time'' (lower ''name-label'')
            then Some ''duration''
            else if contains ''year'' (lower ''name-label'') \<or> contains ''release'' (lower ''name-label'')
                    \<or> contains ''date'' (lower ''name-label'')
            then Some ''release_info''
            else if contains ''title'' (lower ''name-label'') \<or> contains ''name'' (lower ''name-label'')
                    \<or> contains ''label'' (lower ''name-label'')
            then Some ''title_text''
            else current_text_field \<lparr>items = [], current_item = Some (new_item ''tt1234567'' (Some ''Example Film'') ''movie'' ''#/detail/movie/tt1234567''),
        in_meta_item = True, in_title_label = False, capture_text = False,
        current_text_field = None\<rparr>)
   \<and> capture_text \<lparr>items = [], current_item = Some (new_item ''tt1234567'' (Some ''Example Film'') ''movie'' ''#/detail/movie/tt1234567''),
        in_meta_item = True, in_title_label = False, capture_text = True,
        current_text_field = Some ''title_text''\<rparr> =
           (capture_text \<lparr>items = [], current_item = Some (new_item ''tt1234567'' (Some ''Example Film'') ''movie'' ''#/detail/movie/tt1234567''),
        in_meta_item = True, in_title_label = False, capture_text = False,
        current_text_field = None\<rparr>
            \<or> contains ''title'' (lower ''name-label'') \<or> contains ''name'' (lower ''name-label'')
            \<or> contains ''label'' (lower ''name-label'')
            \<or> contains ''year'' (lower ''name-label'') \<or> contains ''release'' (lower ''name-label'')
            \<or> contains ''date'' (lower ''name-label'')
            \<or> contains ''duration'' (lower ''name-label'') \<or> contains ''runtime'' (lower ''name-label'')
            \<or> contains ''time'' (lower ''name-label'')
            \<or> (contains ''episode'' (lower ''name-label'') \<and> contains ''title'' (lower ''name-label'')))"
proof -
  have o: "item_open \<lparr>items = [], current_item = Some (new_item ''tt1234567'' (Some ''Example Film'') ''movie'' ''#/detail/movie/tt1234567''),
        in_meta_item = True, in_title_label = False, capture_text = False,
        current_text_field = None\<rparr>"
    by code_simp
  have t: "''span'' \<in> {''div'', ''span'', ''p''}"
    by simp
  have he: "handle_starttag id
       \<lparr>items = [], current_item = Some (new_item ''tt1234567'' (Some ''Example Film'') ''movie'' ''#/detail/movie/tt1234567''),
        in_meta_item = True, in_title_label = False, capture_text = False,
        current_text_field = None\<rparr>
       ''span'' [(''class'', Some ''Episode-Title'')]
     = Inr \<lparr>items = [], current_item = Some (new_item ''tt1234567'' (Some ''Example Film'') ''movie'' ''#/detail/movie/tt1234567''),
        in_meta_item = True, in_title_label = False, capture_text = True,
        current_text_field = Some ''episode_title''\<rparr>"
    by code_simp
  have ce: "map_of (dict_of [(''class'', Some ''Episode-Title'')]) ''class'' = Some (Some ''Episode-Title'')"
    by code_simp
  note Te = capture_last_match_wins[OF he o t ce]
  from Te have ae: "current_text_field \<lparr>items = [], current_item = Some (new_item ''tt1234567'' (Some ''Example Film'') ''movie'' ''#/detail/movie/tt1234567''),
        in_meta_item = True, in_title_label = False, capture_text = True,
        current_text_field = Some ''episode_title''\<rparr> =
           (if contains ''episode'' (lower ''Episode-Title'') \<and> contains ''title'' (lower ''Episode-Title'')
            then Some ''episode_title''
            else if contains ''duration'' (lower ''Episode-Title'') \<or> contains ''runtime'' (lower ''Episode-Title'')
                    \<or> contains ''time'' (lower ''Episode-Title'')
            then Some ''duration''
            else if contains ''year'' (lower ''Episode-Title'') \<or> contains ''release'' (lower ''Episode-Title'')
                    \<or> contains ''date'' (lower ''Episode-Title'')
            then Some ''release_info''
            else if contains ''title'' (lower ''Episode-Title'') \<or> contains ''name'' (lower ''Episode-Title'')
                    \<or> contains ''label'' (lower ''Episode-Title'')
            then Some ''title_text''
            else current_text_field \<lparr>items = [], current_item = Some (new_item ''tt1234567'' (Some ''Example Film'') ''movie'' ''#/detail/movie/tt1234567''),
        in_meta_item = True, in_title_label = False, capture_text = False,
        current_text_field = None\<rparr>)"
    by (rule conjunct1)
  from Te have be: "capture_text \<lparr>items = [], current_item = Some (new_item ''tt1234567'' (Some ''Example Film'') ''movie'' ''#/detail/movie/tt1234567''),
        in_meta_item = True, in_title_label = False, capture_text = True,
        current_text_field = Some ''episode_title''\<rparr> =
           (capture_text \<lparr>items = [], current_item = Some (new_item ''tt1234567'' (Some ''Example Film'') ''movie'' ''#/detail/movie/tt1234567''),
        in_meta_item = True, in_title_label = False, capture_text = False,
        current_text_field = None\<rparr>
            \<or> contains ''title'' (lower ''Episode-Title'') \<or> contains ''name'' (lower ''Episode-Title'')
            \<or> contains ''label'' (lower ''Episode-Title'')
            \<or> contains ''year'' (lower ''Episode-Title'') \<or> contains ''release'' (lower ''Episode-Title'')
            \<or> contains ''date'' (lower ''Episode-Title'')
            \<or> contains ''duration'' (lower ''Episode-Title'') \<or> contains ''runtime'' (lower ''Episode-Title'')
            \<or> contains ''time'' (lower ''Episode-Title'')
            \<or> (contains ''episode'' (lower ''Episode-Title'') \<and> contains ''title'' (lower ''Episode-Title'')))"
    by (rule conjunct1[OF conjunct2])
  have hd: "handle_starttag id
       \<lparr>items = [], current_item = Some (new_item ''tt1234567'' (Some ''Example Film'') ''movie'' ''#/detail/movie/tt1234567''),
        in_meta_item = True, in_title_label = False, capture_text = False,
        current_text_field = None\<rparr>
       ''span'' [(''class'', Some ''release-date runtime'')]
     = Inr \<lparr>items = [], current_item = Some (new_item ''tt1234567'' (Some ''Example Film'') ''movie'' ''#/detail/movie/tt1234567''),
        in_meta_item = True, in_title_label = False, capture_text = True,
        current_text_field = Some ''duration''\<rparr>"
    by code_simp
  have cd: "map_of (dict_of [(''class'', Some ''release-date runtime'')]) ''class'' = Some (Some ''release-date runtime'')"
    by code_simp
  note Td = capture_last_match_wins[OF hd o t cd]
  from Td have ad: "current_text_field \<lparr>items = [], current_item = Some (new_item ''tt1234567'' (Some ''Example Film'') ''movie'' ''#/detail/movie/tt1234567''),
        in_meta_item = True, in_title_label = False, capture_text = True,
        current_text_field = Some ''duration''\<rparr> =
           (if contains ''episode'' (lower ''release-date runtime'') \<and> contains ''title'' (lower ''release-date runtime'')
            then Some ''episode_title''
            else if contains ''duration'' (lower ''release-date runtime'') \<or> contains ''runtime'' (lower ''release-date runtime'')
                    \<or> contains ''time'' (lower ''release-date runtime'')
            then Some ''duration''
            else if contains ''year'' (lower ''release-date runtime'') \<or> contains ''release'' (lower ''release-date runtime'')
                    \<or> contains ''date'' (lower ''release-date runtime'')
            then Some ''release_info''
            else if contains ''title'' (lower ''release-date runtime'') \<or> contains ''name'' (lower ''release-date runtime'')
                    \<or> contains ''label'' (lower ''release-date runtime'')
            then Some ''title_text''
            else current_text_field \<lparr>items = [], current_item = Some (new_item ''tt1234567'' (Some ''Example Film'') ''movie'' ''#/detail/movie/tt1234567''),
        in_meta_item = True, in_title_label = False, capture_text = False,
        current_text_field = None\<rparr>)"
    by (rule conjunct1)
  from Td have bd: "capture_text \<lparr>items = [], current_item = Some (new_item ''tt1234567'' (Some ''Example Film'') ''movie'' ''#/detail/movie/tt1234567''),
        in_meta_item = True, in_title_label = False, capture_text = True,
        current_text_field = Some ''duration''\<rparr> =
           (capture_text \<lparr>items = [], current_item = Some (new_item ''tt1234567'' (Some ''Example Film'') ''movie'' ''#/detail/movie/tt1234567''),
        in_meta_item = True, in_title_label = False, capture_text = False,
        current_text_field = None\<rparr>
            \<or> contains ''title'' (lower ''release-date runtime'') \<or> contains ''name'' (lower ''release-date runtime'')
            \<or> contains ''label'' (lower ''release-date runtime'')
            \<or> contains ''year'' (lower ''release-date runtime'') \<or> contains ''release'' (lower ''release-date runtime'')
            \<or> contains ''date'' (lower ''release-date runtime'')
            \<or> contains ''duration'' (lower ''release-date runtime'') \<or> contains ''runtime'' (lower ''release-date runtime'')
            \<or> contains ''time'' (lower ''release-date runtime'')
            \<or> (contains ''episode'' (lower ''release-date runtime'') \<and> contains ''title'' (lower ''release-date runtime'')))"
    by (rule conjunct1[OF conjunct2])
  have hr: "handle_starttag id
       \<lparr>items = [], current_item = Some (new_item ''tt1234567'' (Some ''Example Film'') ''movie'' ''#/detail/movie/tt1234567''),
        in_meta_item = True, in_title_label = False, capture_text = False,
        current_text_field = None\<rparr>
       ''span'' [(''class'', Some ''Year'')]
     = Inr \<lparr>items = [], current_item = Some (new_item ''tt1234567'' (Some ''Example Film'') ''movie'' ''#/detail/movie/tt1234567''),
        in_meta_item = True, in_title_label = False, capture_text = True,
        current_text_field = Some ''release_info''\<rparr>"
    by code_simp
  have cr: "map_of (dict_of [(''class'', Some ''Year'')]) ''class'' = Some (Some ''Year'')"
    by code_simp
  note Tr = capture_last_match_wins[OF hr o t cr]
  from Tr have ar: "current_text_field \<lparr>items = [], current_item = Some (new_item ''tt1234567'' (Some ''Example Film'') ''movie'' ''#/detail/movie/tt1234567''),
        in_meta_item = True, in_title_label = False, capture_text = True,
        current_text_field = Some ''release_info''\<rparr> =
           (if contains ''episode'' (lower ''Year'') \<and> contains ''title'' (lower ''Year'')
            then Some ''episode_title''
            else if contains ''duration'' (lower ''Year'') \<or> contains ''runtime'' (lower ''Year'')
                    \<or> contains ''time'' (lower ''Year'')
            then Some ''duration''
            else if contains ''year'' (lower ''Year'') \<or> contains ''release'' (lower ''Year'')
                    \<or> contains ''date'' (lower ''Year'')
            then Some ''release_info''
            else if contains ''title'' (lower ''Year'') \<or> contains ''name'' (lower ''Year'')
                    \<or> contains ''label'' (lower ''Year'')
            then Some ''title_text''
            else current_text_field \<lparr>items = [], current_item = Some (new_item ''tt1234567'' (Some ''Example Film'') ''movie'' ''#/detail/movie/tt1234567''),
        in_meta_item = True, in_title_label = False, capture_text = False,
        current_text_field = None\<rparr>)"
    by (rule conjunct1)
  from Tr have br: "capture_text \<lparr>items = [], current_item = Some (new_item ''tt1234567'' (Some ''Example Film'') ''movie'' ''#/detail/movie/tt1234567''),
        in_meta_item = True, in_title_label = False, capture_text = True,
        current_text_field = Some ''release_info''\<rparr> =
           (capture_text \<lparr>items = [], current_item = Some (new_item ''tt1234567'' (Some ''Example Film'') ''movie'' ''#/detail/movie/tt1234567''),
        in_meta_item = True, in_title_label = False, capture_text = False,
        current_text_field = None\<rparr>
            \<or> contains ''title'' (lower ''Year'') \<or> contains ''name'' (lower ''Year'')
            \<or> contains ''label'' (lower ''Year'')
            \<or> contains ''year'' (lower ''Year'') \<or> contains ''release'' (lower ''Year'')
            \<or> contains ''date'' (lower ''Year'')
            \<or> contains ''duration'' (lower ''Year'') \<or> contains ''runtime'' (lower ''Year'')
            \<or> contains ''time'' (lower ''Year'')
            \<or> (contains ''episode'' (lower ''Year'') \<and> contains ''title'' (lower ''Year'')))"
    by (rule conjunct1[OF conjunct2])
  have hn: "handle_starttag id
       \<lparr>items = [], current_item = Some (new_item ''tt1234567'' (Some ''Example Film'') ''movie'' ''#/detail/movie/tt1234567''),
        in_meta_item = True, in_title_label = False, capture_text = False,
        current_text_field = None\<rparr>
       ''span'' [(''class'', Some ''name-label'')]
     = Inr \<lparr>items = [], current_item = Some (new_item ''tt1234567'' (Some ''Example Film'') ''movie'' ''#/detail/movie/tt1234567''),
        in_meta_item = True, in_title_label = False, capture_text = True,
        current_text_field = Some ''title_text''\<rparr>"
    by code_simp
  have cn: "map_of (dict_of [(''class'', Some ''name-label'')]) ''class'' = Some (Some ''name-label'')"
    by code_simp
  note Tn = capture_last_match_wins[OF hn o t cn]
  from Tn have an: "current_text_field \<lparr>items = [], current_item = Some (new_item ''tt1234567'' (Some ''Example Film'') ''movie'' ''#/detail/movie/tt1234567''),
        in_meta_item = True, in_title_label = False, capture_text = True,
        current_text_field = Some ''title_text''\<rparr> =
           (if contains ''episode'' (lower ''name-label'') \<and> contains ''title'' (lower ''name-label'')
            then Some ''episode_title''
            else if contains ''duration'' (lower ''name-label'') \<or> contains ''runtime'' (lower ''name-label'')
                    \<or> contains ''time'' (lower ''name-label'')
            then Some ''duration''
            else if contains ''year'' (lower ''name-label'') \<or> contains ''release'' (lower ''name-label'')
                    \<or> contains ''date'' (lower ''name-label'')
            then Some ''release_info''
            else if contains ''title'' (lower ''name-label'') \<or> contains ''name'' (lower ''name-label'')
                    \<or> contains ''label'' (lower ''name-label'')
            then Some ''title_text''
            else current_text_field \<lparr>items = [], current_item = Some (new_item ''tt1234567'' (Some ''Example Film'') ''movie'' ''#/detail/movie/tt1234567''),
        in_meta_item = True, in_title_label = False, capture_text = False,
        current_text_field = None\<rparr>)"
    by (rule conjunct1)
  from Tn have bn: "capture_text \<lparr>items = [], current_item = Some (new_item ''tt1234567'' (Some ''Example Film'') ''movie'' ''#/detail/movie/tt1234567''),
        in_meta_item = True, in_title_label = False, capture_text = True,
        current_text_field = Some ''title_text''\<rparr> =
           (capture_text \<lparr>items = [], current_item = Some (new_item ''tt1234567'' (Some ''Example Film'') ''movie'' ''#/detail/movie/tt1234567''),
        in_meta_item = True, in_title_label = False, capture_text = False,
        current_text_field = None\<rparr>
            \<or> contains ''title'' (lower ''name-label'') \<or> contains ''name'' (lower ''name-label'')
            \<or> contains ''label'' (lower ''name-label'')
            \<or> contains ''year'' (lower ''name-label'') \<or> contains ''release'' (lower ''name-label'')
            \<or> contains ''date'' (lower ''name-label'')
            \<or> contains ''duration'' (lower ''name-label'') \<or> contains ''runtime'' (lower ''name-label'')
            \<or> contains ''time'' (lower ''name-label'')
            \<or> (contains ''episode'' (lower ''name-label'') \<and> contains ''title'' (lower ''name-label'')))"
    by (rule conjunct1[OF conjunct2])
  show ?thesis
    by (rule conjI[OF he conjI[OF ae conjI[OF be conjI[OF hd conjI[OF ad conjI[OF bd conjI[OF hr conjI[OF ar conjI[OF br conjI[OF hn conjI[OF an bn]]]]]]]]]]])
qed




end
